theory Spec2Isabelle
  imports Complex_Main "HOL-Library.Log_Nat" "HOL-Library.Monad_Syntax"
begin

text \<open>
  The frame engine of the token creator: \<open>frames.js\<close> derives a palette of five tones
  from one accent colour and writes, for each of six frame styles, the text of an SVG
  image of a ring around a transparent disc; \<open>app.js\<close> picks a frame from the registry
  by its position. This theory is a shallow embedding of these functions, and the proofs
  of what they guarantee. A string is a list of code units below 256.
\<close>

section \<open>Numbers\<close>

text \<open>
  A JavaScript number is an IEEE 754 binary64 value. A finite one is modelled by the real
  number it denotes, and every arithmetic operation of the source is the exact operation
  followed by \<open>fl\<close>, rounding to 53 significant bits, ties to even. The exponent range is
  not modelled (no overflow, no subnormal numbers): the tone helper computes with numbers
  of magnitude at most 360, and those that are not zero stay far above the smallest
  normal number. The two zeros are one. A computation that would leave the finite numbers (a division by zero,
  a \<open>NaN\<close> from \<open>parseInt\<close>, a variable left \<open>undefined\<close>) has the value \<open>None\<close>; the
  source does not throw there, it goes on with \<open>NaN\<close> or \<open>Infinity\<close> and spells them
  into its strings, which this model does not follow.
\<close>

definition pow2 :: "int \<Rightarrow> real" where
  "pow2 k = (if 0 \<le> k then 2 ^ nat k else 1 / 2 ^ nat (- k))"

text \<open>\<open>expo x\<close> is the binary exponent of a positive \<open>x\<close>: \<open>2 ^ expo x \<le> x < 2 ^ (expo x + 1)\<close>.\<close>

definition expo :: "real \<Rightarrow> int" where
  "expo x = (if 1 \<le> x then bitlen \<lfloor>x\<rfloor> - 1 else - bitlen (\<lceil>1 / x\<rceil> - 1))"

definition rnd_even :: "real \<Rightarrow> int" where
  "rnd_even x = (let n = \<lfloor>x\<rfloor>; f = x - of_int n in
     if f < 1 / 2 then n else if 1 / 2 < f then n + 1 else if even n then n else n + 1)"

definition fl :: "real \<Rightarrow> real" where
  "fl x = (if x = 0 then 0 else
     let u = pow2 (expo \<bar>x\<bar> - 52) in sgn x * of_int (rnd_even (\<bar>x\<bar> / u)) * u)"

text \<open>The rounding of a positive number on its own, for the proofs.\<close>

definition flp :: "real \<Rightarrow> real" where
  "flp x = of_int (rnd_even (x / pow2 (expo x - 52))) * pow2 (expo x - 52)"

text \<open>\<open>x / y\<close> for a divisor that may be zero.\<close>

definition fdiv :: "real \<Rightarrow> real \<Rightarrow> real option" where
  "fdiv x y = (if y = 0 then None else Some (fl (x / y)))"

text \<open>\<open>x % y\<close>: the remainder has the sign of the dividend and is exact.\<close>

definition fmod :: "real \<Rightarrow> real \<Rightarrow> real" where
  "fmod x y = x - y * of_int (if 0 \<le> x / y then \<lfloor>x / y\<rfloor> else \<lceil>x / y\<rceil>)"

text \<open>\<open>Math.round\<close>: the nearest integer, a tie going up.\<close>

definition mathRound :: "real \<Rightarrow> int" where
  "mathRound x = \<lfloor>x + 1 / 2\<rfloor>"

section \<open>Strings\<close>

text \<open>\<open>s.slice(a, b)\<close> for \<open>0 \<le> a \<le> b\<close>; a short string gives a short slice.\<close>

definition slice :: "nat \<Rightarrow> nat \<Rightarrow> string \<Rightarrow> string" where
  "slice a b s = take (b - a) (drop a s)"

definition hexval :: "char \<Rightarrow> nat option" where
  "hexval c = (let n = (of_char c :: nat) in
     if 48 \<le> n \<and> n \<le> 57 then Some (n - 48)
     else if 97 \<le> n \<and> n \<le> 102 then Some (n - 87)
     else if 65 \<le> n \<and> n \<le> 70 then Some (n - 55)
     else None)"

definition isWhiteSpace :: "char \<Rightarrow> bool" where
  "isWhiteSpace c = ((of_char c :: nat) \<in> {9, 10, 11, 12, 13, 32, 160})"

fun digitsValue :: "nat \<Rightarrow> string \<Rightarrow> nat" where
  "digitsValue acc [] = acc"
| "digitsValue acc (c # cs) =
     (case hexval c of None \<Rightarrow> acc | Some v \<Rightarrow> digitsValue (16 * acc + v) cs)"

text \<open>
  \<open>parseInt(str, 16)\<close>: leading white space is skipped, a sign and a \<open>0x\<close> prefix are
  accepted, the longest run of hexadecimal digits is read, and there is no number
  (\<open>NaN\<close>) when that run is empty. The value is exact for the short strings it is
  called on, the two characters of a slice.
\<close>

definition parseInt16 :: "string \<Rightarrow> int option" where
  "parseInt16 str =
     (let s = dropWhile isWhiteSpace str;
          neg = (s \<noteq> [] \<and> hd s = CHR ''-'');
          s1 = (if s \<noteq> [] \<and> (hd s = CHR ''+'' \<or> hd s = CHR ''-'') then tl s else s);
          s2 = (if take 2 s1 = ''0x'' \<or> take 2 s1 = ''0X'' then drop 2 s1 else s1)
      in if s2 = [] \<or> hexval (hd s2) = None then None
         else Some ((if neg then - 1 else 1) * int (digitsValue 0 s2)))"

definition hexDigit :: "nat \<Rightarrow> char" where
  "hexDigit d = ''0123456789abcdef'' ! d"

fun natToHex :: "nat \<Rightarrow> string" where
  "natToHex n = (if n < 16 then [hexDigit n] else natToHex (n div 16) @ [hexDigit (n mod 16)])"

declare natToHex.simps [simp del]

text \<open>\<open>n.toString(16)\<close> for an integer \<open>n\<close>.\<close>

definition toString16 :: "int \<Rightarrow> string" where
  "toString16 i = (if i < 0 then CHR ''-'' # natToHex (nat (- i)) else natToHex (nat i))"

text \<open>\<open>s.padStart(2, '0')\<close>.\<close>

definition padStart2 :: "string \<Rightarrow> string" where
  "padStart2 s = replicate (2 - length s) CHR ''0'' @ s"

section \<open>The tone helper\<close>

text \<open>
  \<open>hexToHSL\<close>: \<open>hs\<close> is the pair of the variables \<open>h\<close> and \<open>s\<close>, assigned in one branch
  or the other; the \<open>switch\<close> has no default, so \<open>h\<close> stays undefined when no case matches.
\<close>

definition hexToHSL :: "string \<Rightarrow> (int \<times> int \<times> int) option" where
  "hexToHSL hex = do {
     R \<leftarrow> parseInt16 (slice 1 3 hex);
     G \<leftarrow> parseInt16 (slice 3 5 hex);
     B \<leftarrow> parseInt16 (slice 5 7 hex);
     let r = fl (of_int R / 255);
     let g = fl (of_int G / 255);
     let b = fl (of_int B / 255);
     let mx = max r (max g b);
     let mn = min r (min g b);
     let l = fl (fl (mx + mn) / 2);
     hs \<leftarrow> (if mx = mn then Some (0, 0) else do {
        let d = fl (mx - mn);
        s \<leftarrow> (if 1 / 2 < l then fdiv d (fl (fl (2 - mx) - mn)) else fdiv d (fl (mx + mn)));
        h \<leftarrow> (if mx = r then do {
                 q \<leftarrow> fdiv (fl (g - b)) d;
                 Some (fl (fl (q + (if g < b then 6 else 0)) / 6)) }
              else if mx = g then do {
                 q \<leftarrow> fdiv (fl (b - r)) d;
                 Some (fl (fl (q + 2) / 6)) }
              else if mx = b then do {
                 q \<leftarrow> fdiv (fl (r - g)) d;
                 Some (fl (fl (q + 4) / 6)) }
              else None);
        Some (h, s) });
     Some (mathRound (fl (fst hs * 360)), mathRound (fl (snd hs * 100)), mathRound (fl (l * 100)))
   }"

text \<open>The function \<open>f\<close> inside \<open>hslToHex\<close>, with the variables it closes over as arguments.\<close>

definition hslToHex_f :: "real \<Rightarrow> real \<Rightarrow> real \<Rightarrow> real \<Rightarrow> string" where
  "hslToHex_f h l a n =
     (let k = fmod (fl (n + fl (h / 30))) 12;
          color = fl (l - fl (a * max (min (fl (k - 3)) (min (fl (9 - k)) 1)) (- 1)))
      in padStart2 (toString16 (mathRound (fl (255 * color)))))"

definition hslToHex :: "int \<Rightarrow> int \<Rightarrow> int \<Rightarrow> string" where
  "hslToHex h s l =
     (let s' = fl (of_int s / 100);
          l' = fl (of_int l / 100);
          a = fl (s' * min l' (fl (1 - l')));
          f = hslToHex_f (of_int h) l' a
      in ''#'' @ f 0 @ f 8 @ f 4)"

text \<open>
  \<open>toneVariants\<close>, and every frame below, is \<open>None\<close> where \<open>hexToHSL\<close> is: the palette
  would not be made of finite numbers.
\<close>

record tones =
  base :: string
  light :: string
  dark :: string
  vdark :: string
  shine :: string

definition toneVariants :: "string \<Rightarrow> tones option" where
  "toneVariants hex =
     (case hexToHSL hex of
        None \<Rightarrow> None
      | Some (h, s, l) \<Rightarrow> Some \<lparr>
          base = hslToHex h s l,
          light = hslToHex h (max (s - 5) 0) (min (l + 22) 92),
          dark = hslToHex h (min (s + 5) 100) (max (l - 22) 8),
          vdark = hslToHex h (min (s + 10) 100) (max (l - 38) 4),
          shine = hslToHex h (max (s - 15) 0) (min (l + 38) 96) \<rparr>)"

text \<open>
  The hue, saturation and lightness each tone is built from: the arguments of the five
  calls of \<open>hslToHex\<close> in \<open>toneVariants\<close>.
\<close>

record tone_hsl =
  base_hsl :: "int \<times> int \<times> int"
  light_hsl :: "int \<times> int \<times> int"
  dark_hsl :: "int \<times> int \<times> int"
  vdark_hsl :: "int \<times> int \<times> int"
  shine_hsl :: "int \<times> int \<times> int"

definition toneVariants_hsl :: "int \<times> int \<times> int \<Rightarrow> tone_hsl" where
  "toneVariants_hsl hsl = (case hsl of (h, s, l) \<Rightarrow> \<lparr>
     base_hsl = (h, s, l),
     light_hsl = (h, max (s - 5) 0, min (l + 22) 92),
     dark_hsl = (h, min (s + 5) 100, max (l - 22) 8),
     vdark_hsl = (h, min (s + 10) 100, max (l - 38) 4),
     shine_hsl = (h, max (s - 15) 0, min (l + 38) 96) \<rparr>)"

definition lightness :: "int \<times> int \<times> int \<Rightarrow> int" where
  "lightness hsl = snd (snd hsl)"

text \<open>The accent colours the tone helper is specified for: \<open>#\<close> and six hexadecimal digits.\<close>

definition valid_hex :: "string \<Rightarrow> bool" where
  "valid_hex hex = (case hex of [] \<Rightarrow> False
     | c # ds \<Rightarrow> c = CHR ''#'' \<and> length ds = 6 \<and> list_all (\<lambda>d. hexval d \<noteq> None) ds)"

section \<open>The runtime\<close>

text \<open>
  \<open>Math.cos\<close> and \<open>Math.sin\<close> are implementation-approximated: they are parameters of
  the frames. \<open>Math.PI\<close> is the double nearest to \<open>\<pi>\<close>, and a decimal literal of the
  source such as \<open>0.55\<close> is the double nearest to it, \<open>fl 0.55\<close>.
\<close>

record runtime =
  math_cos :: "real \<Rightarrow> real"
  math_sin :: "real \<Rightarrow> real"

definition Math_PI :: real where
  "Math_PI = 884279719003555 / 281474976710656"

text \<open>The decimal digits of a natural number.\<close>

fun natToDec :: "nat \<Rightarrow> string" where
  "natToDec n = (if n < 10 then [''0123456789'' ! n] else natToDec (n div 10) @ [''0123456789'' ! (n mod 10)])"

declare natToDec.simps [simp del]

definition pow10 :: "int \<Rightarrow> real" where
  "pow10 k = (if 0 \<le> k then 10 ^ nat k else 1 / 10 ^ nat (- k))"

text \<open>The decimal exponent of a positive number: \<open>10 ^ (expo10 v - 1) \<le> v < 10 ^ expo10 v\<close>.\<close>

definition expo10 :: "real \<Rightarrow> int" where
  "expo10 v = (if 1 \<le> v then int (floorlog 10 (nat \<lfloor>v\<rfloor>))
     else 1 - int (floorlog 10 (nat (\<lceil>1 / v\<rceil> - 1))))"

text \<open>
  The \<open>k\<close>-digit integers \<open>s\<close> for which \<open>s * 10 ^ (n - k)\<close> reads back as \<open>v\<close>: the one
  below \<open>v\<close>, the one above, the nearer of the two when both do.
\<close>

definition digitsAt :: "real \<Rightarrow> int \<Rightarrow> nat \<Rightarrow> int option" where
  "digitsAt v n k =
     (let sc = pow10 (n - int k);
          lo = \<lfloor>v / sc\<rfloor>;
          hi = lo + 1;
          okLo = (fl (of_int lo * sc) = v);
          okHi = (fl (of_int hi * sc) = v)
      in if okLo \<and> okHi then Some (if v - of_int lo * sc \<le> of_int hi * sc - v then lo else hi)
         else if okLo then Some lo
         else if okHi then Some hi
         else None)"

text \<open>The first digit count of the list at which such an integer exists, and the integer.\<close>

fun shortestDigits :: "real \<Rightarrow> int \<Rightarrow> nat list \<Rightarrow> (int \<times> nat) option" where
  "shortestDigits v n [] = None"
| "shortestDigits v n (k # ks) =
     (case digitsAt v n k of Some s \<Rightarrow> Some (s, k) | None \<Rightarrow> shortestDigits v n ks)"

text \<open>
  The digits \<open>ds\<close> of a number below \<open>10 ^ n\<close>, laid out as \<open>Number::toString\<close> does: as
  an integer, with a decimal point, with leading zeros, or with an exponent.
\<close>

definition formatDigits :: "string \<Rightarrow> int \<Rightarrow> string" where
  "formatDigits ds n =
     (let k = int (length ds) in
      if k \<le> n \<and> n \<le> 21 then ds @ replicate (nat (n - k)) CHR ''0''
      else if 0 < n \<and> n \<le> 21 then take (nat n) ds @ ''.'' @ drop (nat n) ds
      else if - 6 < n \<and> n \<le> 0 then ''0.'' @ replicate (nat (- n)) CHR ''0'' @ ds
      else (if k = 1 then ds else take 1 ds @ ''.'' @ drop 1 ds) @ ''e''
        @ (if n - 1 < 0 then ''-'' else ''+'') @ natToDec (nat \<bar>n - 1\<bar>))"

text \<open>
  The conversion of a number to a string, as a template substitution does it: the
  shortest run of digits that reads back as the same double, the nearest such run when
  there are several. Seventeen digits always identify a double, so the search over the
  digit counts 1 to 17 finds one. When the integer found is \<open>10 ^ k\<close>, the digits are a
  single 1 and the number has one more place before the point.
\<close>

definition numberToString :: "real \<Rightarrow> string" where
  "numberToString x =
     (if x = 0 then ''0''
      else let v = \<bar>x\<bar>; n = expo10 v
           in (if x < 0 then ''-'' else '''') @
              (case shortestDigits v n [1 ..< 18] of
                 None \<Rightarrow> ''''
               | Some (s, k) \<Rightarrow>
                   if s = 10 ^ k then formatDigits ''1'' (n + 1) else formatDigits (natToDec (nat s)) n))"

text \<open>
  \<open>x.toFixed(1)\<close>: the sign, then the integer \<open>n\<close> nearest to ten times the magnitude
  (a tie going up) written with one digit after the point; from \<open>10 ^ 21\<close> on the
  general conversion is used.
\<close>

definition toFixed1 :: "real \<Rightarrow> string" where
  "toFixed1 x =
     (let s = (if x < 0 then ''-'' else '''');
          y = \<bar>x\<bar>
      in if 10 ^ 21 \<le> y then s @ numberToString y
         else let m = natToDec (nat \<lfloor>y * 10 + 1 / 2\<rfloor>);
                  m' = (if length m \<le> 1 then ''0'' @ m else m)
              in s @ butlast m' @ ''.'' @ [last m'])"

text \<open>\<open>xs.join(sep)\<close>.\<close>

fun join :: "string \<Rightarrow> string list \<Rightarrow> string" where
  "join sep [] = []"
| "join sep [x] = x"
| "join sep (x # y # ys) = x @ sep @ join sep (y # ys)"

text \<open>
  The loops of the frames all have the shape
  \<^verbatim>\<open>for (let i = 0; i < n; i++) { acc += body(i); }\<close>
\<close>

function forAppend :: "nat \<Rightarrow> nat \<Rightarrow> (nat \<Rightarrow> string) \<Rightarrow> string \<Rightarrow> string" where
  "forAppend i n body acc = (if i < n then forAppend (Suc i) n body (acc @ body i) else acc)"
  by pat_completeness auto
termination
  by (relation "measure (\<lambda>(i, n, body, acc). n - i)") auto

declare forAppend.simps [simp del]

section \<open>The SVG wrapper\<close>

text \<open>
  The mask \<open>fm\<close> is a white rectangle over the whole canvas with a black disc of radius
  232 on it; the group that holds the frame's artwork is drawn through it.
\<close>

definition svgWrap :: "string \<Rightarrow> string" where
  \<open>svgWrap content =
       ''<svg xmlns="http://www.w3.org/2000/svg" xmlns:xlink="http://www.w3.org/1999/xlink" width="512" height="512" viewBox="0 0 512 512">\<newline>'' @
       ''    <defs>\<newline>'' @
       ''      <mask id="fm">\<newline>'' @
       ''        <rect width="512" height="512" fill="white"/>\<newline>'' @
       ''        <circle cx="256" cy="256" r="232" fill="black"/>\<newline>'' @
       ''      </mask>\<newline>'' @
       ''    </defs>\<newline>'' @
       ''    <g mask="url(#fm)">'' @ content @ ''</g>\<newline>'' @
       ''  </svg>''\<close>

section \<open>The frames\<close>

definition frameSimpleRing :: "string \<Rightarrow> string option" where
  \<open>frameSimpleRing color = do {
     t \<leftarrow> toneVariants color;
     Some (svgWrap (
       ''\<newline>'' @
       ''    <circle cx="256" cy="256" r="248" fill="'' @ dark t @ ''" />\<newline>'' @
       ''    <circle cx="256" cy="256" r="240" fill="'' @ base t @ ''" />\<newline>'' @
       ''    <circle cx="256" cy="256" r="234" fill="'' @ dark t @ ''" />\<newline>'' @
       ''  ''))
   }\<close>

definition frameDoubleRing :: "string \<Rightarrow> string option" where
  \<open>frameDoubleRing color = do {
     t \<leftarrow> toneVariants color;
     Some (svgWrap (
       ''\<newline>'' @
       ''    <!-- outer ring -->\<newline>'' @
       ''    <circle cx="256" cy="256" r="252" fill="'' @ vdark t @ ''" />\<newline>'' @
       ''    <circle cx="256" cy="256" r="248" fill="'' @ base t @ ''" />\<newline>'' @
       ''    <circle cx="256" cy="256" r="243" fill="'' @ vdark t @ ''" />\<newline>'' @
       ''    <!-- gap -->\<newline>'' @
       ''    <circle cx="256" cy="256" r="240" fill="'' @ dark t @ ''" />\<newline>'' @
       ''    <!-- inner ring -->\<newline>'' @
       ''    <circle cx="256" cy="256" r="238" fill="'' @ vdark t @ ''" />\<newline>'' @
       ''    <circle cx="256" cy="256" r="235" fill="'' @ light t @ ''" />\<newline>'' @
       ''    <circle cx="256" cy="256" r="232" fill="'' @ vdark t @ ''" />\<newline>'' @
       ''  ''))
   }\<close>

text \<open>The body of the loop of \<open>frameRopeTwist\<close>: the text it appends to \<open>strands\<close> at index \<open>i\<close>.\<close>

definition ropeStrand :: "runtime \<Rightarrow> tones \<Rightarrow> real \<Rightarrow> nat \<Rightarrow> string" where
  \<open>ropeStrand rt t step i =
     (let a0 = fl (fl (of_nat i * step) - fl (Math_PI / 2));
          a1 = fl (a0 + fl (step * fl 0.55));
          x0 = fl (256 + fl (242 * math_cos rt a0));
          y0 = fl (256 + fl (242 * math_sin rt a0));
          x1 = fl (256 + fl (242 * math_cos rt a1));
          y1 = fl (256 + fl (242 * math_sin rt a1));
          fill = (if even i then base t else dark t);
          am = fl (fl (a0 + fl (step * fl 0.275)) + (if even i then fl 0.08 else - fl 0.08));
          xm = fl (256 + fl (234 * math_cos rt am));
          ym = fl (256 + fl (234 * math_sin rt am))
      in ''<path d="M'' @ toFixed1 x0 @ '','' @ toFixed1 y0 @ '' Q'' @ toFixed1 xm @
         '','' @ toFixed1 ym @ '' '' @ toFixed1 x1 @ '','' @ toFixed1 y1 @ ''" stroke="'' @
         fill @ ''" stroke-width="9" fill="none" stroke-linecap="round"/>'')\<close>

definition frameRopeTwist :: "runtime \<Rightarrow> string \<Rightarrow> string option" where
  \<open>frameRopeTwist rt color = do {
     t \<leftarrow> toneVariants color;
     let step = fl (fl (2 * Math_PI) / 36);
     let strands = forAppend 0 36 (ropeStrand rt t step) [];
     Some (svgWrap (
       ''\<newline>'' @
       ''    <circle cx="256" cy="256" r="252" fill="'' @ vdark t @ ''" />\<newline>'' @
       ''    <circle cx="256" cy="256" r="248" fill="'' @ dark t @ ''" />\<newline>'' @
       ''    '' @ strands @ ''\<newline>'' @
       ''    <circle cx="256" cy="256" r="233" fill="'' @ vdark t @ ''" />\<newline>'' @
       ''  ''))
   }\<close>

text \<open>
  The inner function \<open>petal\<close> of \<open>frameOrnateFantasy\<close>, with the palette it closes over
  as an argument (\<open>sz\<close> is its parameter \<open>size\<close>). Its variables \<open>px\<close> and \<open>py\<close> are computed and never used.
\<close>

definition petal :: "runtime \<Rightarrow> tones \<Rightarrow> real \<Rightarrow> real \<Rightarrow> real \<Rightarrow> real \<Rightarrow> string" where
  \<open>petal rt t cx cy angle sz =
     (let a = fl (fl (angle * Math_PI) / 180);
          tip_x = fl (cx + fl (248 * math_cos rt a));
          tip_y = fl (cy + fl (248 * math_sin rt a));
          lx = fl (cx + fl (238 * math_cos rt (fl (a - fl 0.18))));
          ly = fl (cy + fl (238 * math_sin rt (fl (a - fl 0.18))));
          rx = fl (cx + fl (238 * math_cos rt (fl (a + fl 0.18))));
          ry = fl (cy + fl (238 * math_sin rt (fl (a + fl 0.18))))
      in ''<path d="M'' @ toFixed1 lx @ '','' @ toFixed1 ly @ '' Q'' @ toFixed1 tip_x @
         '','' @ toFixed1 tip_y @ '' '' @ toFixed1 rx @ '','' @ toFixed1 ry @ ''" stroke="'' @
         shine t @ ''" stroke-width="2.5" fill="none"/>\<newline>'' @
         ''            <circle cx="'' @ toFixed1 tip_x @ ''" cy="'' @ toFixed1 tip_y @
         ''" r="'' @ toFixed1 (fl (sz * fl 0.35)) @ ''" fill="'' @ light t @ ''"/>'')\<close>

text \<open>The body of the loop over the vine arcs.\<close>

definition vine :: "runtime \<Rightarrow> tones \<Rightarrow> nat \<Rightarrow> string" where
  \<open>vine rt t i =
     (let a0 = fl (fl (fl (fl (fl (of_nat i * 45) - 90) + 22) * Math_PI) / 180);
          a1 = fl (fl (fl (fl (fl (of_nat i * 45) - 90) + 44) * Math_PI) / 180);
          x0 = fl (256 + fl (241 * math_cos rt a0));
          y0 = fl (256 + fl (241 * math_sin rt a0));
          x1 = fl (256 + fl (241 * math_cos rt a1));
          y1 = fl (256 + fl (241 * math_sin rt a1));
          xc = fl (256 + fl (fl (241 + 4) * math_cos rt (fl (fl (a0 + a1) / 2))));
          yc = fl (256 + fl (fl (241 + 4) * math_sin rt (fl (fl (a0 + a1) / 2))))
      in ''<path d="M'' @ toFixed1 x0 @ '','' @ toFixed1 y0 @ '' Q'' @ toFixed1 xc @
         '','' @ toFixed1 yc @ '' '' @ toFixed1 x1 @ '','' @ toFixed1 y1 @ ''" stroke="'' @
         base t @ ''" stroke-width="2" fill="none"/>'')\<close>

definition frameOrnateFantasy :: "runtime \<Rightarrow> string \<Rightarrow> string option" where
  \<open>frameOrnateFantasy rt color = do {
     t \<leftarrow> toneVariants color;
     let petals = forAppend 0 8 (\<lambda>i. petal rt t 256 256 (fl (fl (of_nat i * 45) - 90)) 6) [];
     let vines = forAppend 0 8 (vine rt t) [];
     Some (svgWrap (
       ''\<newline>'' @
       ''    <circle cx="256" cy="256" r="252" fill="'' @ vdark t @ ''" />\<newline>'' @
       ''    <circle cx="256" cy="256" r="248" fill="'' @ dark t @ ''" />\<newline>'' @
       ''    <circle cx="256" cy="256" r="244" fill="'' @ base t @ ''" />\<newline>'' @
       ''    <circle cx="256" cy="256" r="237" fill="'' @ dark t @ ''" />\<newline>'' @
       ''    '' @ vines @ ''\<newline>'' @
       ''    '' @ petals @ ''\<newline>'' @
       ''    <circle cx="256" cy="256" r="233" fill="'' @ vdark t @ ''" />\<newline>'' @
       ''  ''))
   }\<close>

text \<open>The bodies of the two loops of \<open>frameRivetedMetal\<close>.\<close>

definition rivet :: "runtime \<Rightarrow> tones \<Rightarrow> nat \<Rightarrow> string" where
  \<open>rivet rt t i =
     (let a = fl (fl (fl (fl (of_nat i / 24) * 2) * Math_PI) - fl (Math_PI / 2));
          x = toFixed1 (fl (256 + fl (242 * math_cos rt a)));
          y = toFixed1 (fl (256 + fl (242 * math_sin rt a)))
      in ''<circle cx="'' @ x @ ''" cy="'' @ y @ ''" r="5" fill="'' @ vdark t @ ''" stroke="'' @
         shine t @ ''" stroke-width="1.5"/>\<newline>'' @
         ''               <circle cx="'' @ x @ ''" cy="'' @ y @ ''" r="2" fill="'' @
         light t @ ''"/>'')\<close>

definition band :: "runtime \<Rightarrow> tones \<Rightarrow> nat \<Rightarrow> string" where
  \<open>band rt t i =
     (let ri = fl (234 + fl (of_nat i * 3));
          op = fl (fl 0.12 + fl (of_nat i * fl 0.04))
      in ''<circle cx="256" cy="256" r="'' @ numberToString ri @ ''" fill="none" stroke="'' @
         light t @ ''" stroke-width="1.5" opacity="'' @ numberToString op @ ''"/>'')\<close>

definition frameRivetedMetal :: "runtime \<Rightarrow> string \<Rightarrow> string option" where
  \<open>frameRivetedMetal rt color = do {
     t \<leftarrow> toneVariants color;
     let rivets = forAppend 0 24 (rivet rt t) [];
     let bands = forAppend 0 5 (band rt t) [];
     Some (svgWrap (
       ''\<newline>'' @
       ''    <circle cx="256" cy="256" r="252" fill="'' @ vdark t @ ''" />\<newline>'' @
       ''    <circle cx="256" cy="256" r="249" fill="'' @ dark t @ ''" />\<newline>'' @
       ''    <circle cx="256" cy="256" r="237" fill="'' @ base t @ ''" />\<newline>'' @
       ''    '' @ bands @ ''\<newline>'' @
       ''    '' @ rivets @ ''\<newline>'' @
       ''    <circle cx="256" cy="256" r="233" fill="'' @ vdark t @ ''" />\<newline>'' @
       ''  ''))
   }\<close>

text \<open>
  The inner function \<open>gem\<close> of \<open>frameGemBorder\<close>; \<open>cos30\<close> and \<open>sin30\<close> are computed
  and never used.
\<close>

definition gem :: "runtime \<Rightarrow> tones \<Rightarrow> real \<Rightarrow> real \<Rightarrow> real \<Rightarrow> real \<Rightarrow> string" where
  \<open>gem rt t cx cy angle sz =
     (let a = fl (fl (angle * Math_PI) / 180);
          gx = fl (cx + fl (242 * math_cos rt a));
          gy = fl (cy + fl (242 * math_sin rt a));
          s = sz;
          pts = join '' '' (map (\<lambda>p. join '','' (map toFixed1 p)) [
            [fl (gx + fl (fl (math_cos rt a * s) * fl 0.4)),
             fl (gy + fl (fl (math_sin rt a * s) * fl 0.4))],
            [fl (gx + fl (fl (math_cos rt (fl (a + fl 1.2)) * s) * fl 0.55)),
             fl (gy + fl (fl (math_sin rt (fl (a + fl 1.2)) * s) * fl 0.55))],
            [fl (gx + fl (fl (math_cos rt (fl (a + Math_PI)) * s) * fl 0.35)),
             fl (gy + fl (fl (math_sin rt (fl (a + Math_PI)) * s) * fl 0.35))],
            [fl (gx + fl (fl (math_cos rt (fl (a - fl 1.2)) * s) * fl 0.55)),
             fl (gy + fl (fl (math_sin rt (fl (a - fl 1.2)) * s) * fl 0.55))]])
      in ''\<newline>'' @
         ''      <polygon points="'' @ pts @ ''" fill="'' @ base t @ ''" stroke="'' @
         vdark t @ ''" stroke-width="1"/>\<newline>'' @
         ''      <polygon points="'' @ pts @ ''" fill="url(#gemGrad)" opacity="0.4"/>\<newline>'' @
         ''      <circle cx="'' @ toFixed1 gx @ ''" cy="'' @ toFixed1 gy @ ''" r="'' @
         toFixed1 (fl (sz * fl 0.18)) @ ''" fill="'' @ shine t @ ''" opacity="0.7"/>\<newline>'' @
         ''    '')\<close>

definition bead :: "runtime \<Rightarrow> tones \<Rightarrow> nat \<Rightarrow> string" where
  \<open>bead rt t i =
     (let a = fl (fl (fl (fl (fl (of_nat i + fl 0.5) * 45) - 90) * Math_PI) / 180);
          bx = toFixed1 (fl (256 + fl (242 * math_cos rt a)));
          by = toFixed1 (fl (256 + fl (242 * math_sin rt a)))
      in ''<circle cx="'' @ bx @ ''" cy="'' @ by @ ''" r="3.5" fill="'' @ light t @
         ''" stroke="'' @ vdark t @ ''" stroke-width="1"/>'')\<close>

definition frameGemBorder :: "runtime \<Rightarrow> string \<Rightarrow> string option" where
  \<open>frameGemBorder rt color = do {
     t \<leftarrow> toneVariants color;
     let gems = forAppend 0 8 (\<lambda>i. gem rt t 256 256 (fl (fl (of_nat i * 45) - 90)) 13) [];
     let beads = forAppend 0 8 (bead rt t) [];
     Some (svgWrap (
       ''\<newline>'' @
       ''    <defs>\<newline>'' @
       ''      <radialGradient id="gemGrad" cx="35%" cy="35%" r="65%">\<newline>'' @
       ''        <stop offset="0%" stop-color="white" stop-opacity="0.9"/>\<newline>'' @
       ''        <stop offset="100%" stop-color="white" stop-opacity="0"/>\<newline>'' @
       ''      </radialGradient>\<newline>'' @
       ''    </defs>\<newline>'' @
       ''    <circle cx="256" cy="256" r="252" fill="'' @ vdark t @ ''" />\<newline>'' @
       ''    <circle cx="256" cy="256" r="249" fill="'' @ dark t @ ''" />\<newline>'' @
       ''    <circle cx="256" cy="256" r="236" fill="'' @ base t @ ''" />\<newline>'' @
       ''    <circle cx="256" cy="256" r="233" fill="'' @ dark t @ ''" />\<newline>'' @
       ''    '' @ beads @ ''\<newline>'' @
       ''    '' @ gems @ ''\<newline>'' @
       ''  ''))
   }\<close>

section \<open>The registry and its use\<close>

record frame =
  frame_id :: string
  label :: string
  fn :: "string \<Rightarrow> string option"

definition FRAMES :: "runtime \<Rightarrow> frame list" where
  "FRAMES rt = [
     \<lparr> frame_id = ''simple-ring'', label = ''Simple Ring'', fn = frameSimpleRing \<rparr>,
     \<lparr> frame_id = ''double-ring'', label = ''Double Ring'', fn = frameDoubleRing \<rparr>,
     \<lparr> frame_id = ''rope-twist'', label = ''Rope Twist'', fn = frameRopeTwist rt \<rparr>,
     \<lparr> frame_id = ''ornate-fantasy'', label = ''Ornate'', fn = frameOrnateFantasy rt \<rparr>,
     \<lparr> frame_id = ''riveted-metal'', label = ''Riveted'', fn = frameRivetedMetal rt \<rparr>,
     \<lparr> frame_id = ''gem-border'', label = ''Gems'', fn = frameGemBorder rt \<rparr> ]"

text \<open>
  The only place a frame is chosen is \<^verbatim>\<open>FRAMES[state.frameIndex].fn(state.color)\<close>, in
  \<open>render\<close> and \<open>renderThumb\<close> of the application. The subscript is a property key: a
  number (an integer here, as every value the application stores is), or a string, which
  names an element of the array when it is the canonical decimal form of the element's
  position. Any other key gives \<open>undefined\<close>, or a property of arrays that has no \<open>fn\<close>
  to call, and the call throws a \<open>TypeError\<close>. \<open>render_svgStr\<close> is the value of that
  expression: the error thrown, or what the generator returns.
\<close>

datatype js_value = Num int | Str string

text \<open>
  \<open>TypeError\<close> is what the runtime throws. \<open>FrameNotFound\<close> is the kind of error the
  specification names for an unknown frame; nothing in the code raises it.
\<close>

datatype js_error = TypeError | FrameNotFound

definition isCanonicalIndex :: "string \<Rightarrow> bool" where
  "isCanonicalIndex s = (s \<noteq> [] \<and> list_all (\<lambda>c. c \<in> set ''0123456789'') s \<and> (s = ''0'' \<or> hd s \<noteq> CHR ''0''))"

definition decValue :: "string \<Rightarrow> nat" where
  "decValue s = foldl (\<lambda>acc c. 10 * acc + (of_char c - 48)) 0 s"

definition arrayIndex :: "js_value \<Rightarrow> nat option" where
  "arrayIndex k = (case k of
      Num i \<Rightarrow> if 0 \<le> i then Some (nat i) else None
    | Str s \<Rightarrow> if isCanonicalIndex s then Some (decValue s) else None)"

definition render_svgStr :: "runtime \<Rightarrow> js_value \<Rightarrow> string \<Rightarrow> js_error + string option" where
  "render_svgStr rt frameIndex color =
     (case arrayIndex frameIndex of
        None \<Rightarrow> Inl TypeError
      | Some i \<Rightarrow> if i < length (FRAMES rt) then Inr (fn (FRAMES rt ! i) color) else Inl TypeError)"

section \<open>Reading the output\<close>

text \<open>
  The text of a scene made of discs around the centre of the canvas, comments, white
  space and other text, as the templates of the frames spell it.
\<close>

datatype scene_item = Disc nat string | Comment string | Blank string | Raw string

fun itemText :: "scene_item \<Rightarrow> string" where
  \<open>itemText (Disc r fill) =
     ''<circle cx="256" cy="256" r="'' @ natToDec r @ ''" fill="'' @ fill @ ''" />''\<close>
| \<open>itemText (Comment c) = ''<!--'' @ c @ ''-->''\<close>
| \<open>itemText (Blank w) = w\<close>
| \<open>itemText (Raw s) = s\<close>

definition sceneText :: "scene_item list \<Rightarrow> string" where
  "sceneText items = concat (map itemText items)"

fun discs :: "scene_item list \<Rightarrow> (nat \<times> string) list" where
  "discs [] = []"
| "discs (Disc r fill # items) = (r, fill) # discs items"
| "discs (Comment c # items) = discs items"
| "discs (Blank w # items) = discs items"
| "discs (Raw s # items) = discs items"

definition doubleRingScene :: "tones \<Rightarrow> scene_item list" where
  "doubleRingScene t = [
     Blank ''\<newline>    '', Comment '' outer ring '', Blank ''\<newline>    '',
     Disc 252 (vdark t), Blank ''\<newline>    '',
     Disc 248 (base t), Blank ''\<newline>    '',
     Disc 243 (vdark t), Blank ''\<newline>    '',
     Comment '' gap '', Blank ''\<newline>    '',
     Disc 240 (dark t), Blank ''\<newline>    '',
     Comment '' inner ring '', Blank ''\<newline>    '',
     Disc 238 (vdark t), Blank ''\<newline>    '',
     Disc 235 (light t), Blank ''\<newline>    '',
     Disc 232 (vdark t), Blank ''\<newline>  '' ]"

text \<open>
  The shapes of a mask. A mask is painted in document order, a later shape over an
  earlier one; where no shape paints it is transparent black. \<open>maskLuminance\<close> is the
  luminance of the mask at a point: 1 under white, 0 under black. \<open>frameMask\<close> is the
  mask of \<open>svgWrap\<close>.
\<close>

datatype paint = White | Black

datatype mask_shape = Rect nat nat paint | Circle nat nat nat paint

definition frameMask :: "mask_shape list" where
  "frameMask = [Rect 512 512 White, Circle 256 256 232 Black]"

fun covers :: "mask_shape \<Rightarrow> real \<times> real \<Rightarrow> bool" where
  "covers (Rect w h p) (x, y) = (0 \<le> x \<and> x \<le> of_nat w \<and> 0 \<le> y \<and> y \<le> of_nat h)"
| "covers (Circle cx cy r p) (x, y) = ((x - of_nat cx)\<^sup>2 + (y - of_nat cy)\<^sup>2 \<le> (of_nat r)\<^sup>2)"

fun paintOf :: "mask_shape \<Rightarrow> paint" where
  "paintOf (Rect w h p) = p"
| "paintOf (Circle cx cy r p) = p"

fun luminance :: "paint \<Rightarrow> real" where
  "luminance White = 1"
| "luminance Black = 0"

definition maskLuminance :: "mask_shape list \<Rightarrow> real \<times> real \<Rightarrow> real" where
  "maskLuminance shapes pt =
     foldl (\<lambda>acc sh. if covers sh pt then luminance (paintOf sh) else acc) 0 shapes"

section \<open>Letter case\<close>

definition lowerChar :: "char \<Rightarrow> char" where
  "lowerChar c = (let n = (of_char c :: nat) in if 65 \<le> n \<and> n \<le> 90 then char_of (n + 32) else c)"

text \<open>Two strings that differ at most in the case of their letters.\<close>

definition sameUpToCase :: "string \<Rightarrow> string \<Rightarrow> bool" where
  "sameUpToCase a b = (map lowerChar a = map lowerChar b)"

section \<open>Colours without hue\<close>

text \<open>An accent colour is achromatic when its three channels are the same number.\<close>

definition achromatic :: "string \<Rightarrow> bool" where
  "achromatic hex = (parseInt16 (slice 1 3 hex) = parseInt16 (slice 3 5 hex)
     \<and> parseInt16 (slice 3 5 hex) = parseInt16 (slice 5 7 hex))"

text \<open>The palette spelled from the five triples.\<close>

definition hslToHex3 :: "int \<times> int \<times> int \<Rightarrow> string" where
  "hslToHex3 hsl = (case hsl of (h, s, l) \<Rightarrow> hslToHex h s l)"

definition tonesOf :: "tone_hsl \<Rightarrow> tones" where
  "tonesOf p = \<lparr> base = hslToHex3 (base_hsl p), light = hslToHex3 (light_hsl p),
     dark = hslToHex3 (dark_hsl p), vdark = hslToHex3 (vdark_hsl p),
     shine = hslToHex3 (shine_hsl p) \<rparr>"

section \<open>Reading the rope\<close>

text \<open>
  The angles of the loop body of \<open>frameRopeTwist\<close>, named: where strand \<open>i\<close> starts, where it
  ends, and where its control point lies; and the point of the circle of radius \<open>r\<close> at an
  angle, as the path data spell it.
\<close>

definition ropeStep :: real where
  "ropeStep = fl (fl (2 * Math_PI) / 36)"

definition ropeStart :: "nat \<Rightarrow> real" where
  "ropeStart i = fl (fl (of_nat i * ropeStep) - fl (Math_PI / 2))"

definition ropeEnd :: "nat \<Rightarrow> real" where
  "ropeEnd i = fl (ropeStart i + fl (ropeStep * fl 0.55))"

definition ropeControl :: "nat \<Rightarrow> real" where
  "ropeControl i = fl (fl (ropeStart i + fl (ropeStep * fl 0.275)) + (if even i then fl 0.08 else - fl 0.08))"

definition polar :: "runtime \<Rightarrow> real \<Rightarrow> real \<Rightarrow> string" where
  "polar rt r a = toFixed1 (fl (256 + fl (r * math_cos rt a))) @ '','' @ toFixed1 (fl (256 + fl (r * math_sin rt a)))"

section \<open>A runtime for the examples\<close>

text \<open>Cosine and sine correctly rounded.\<close>

definition roundedRuntime :: runtime where
  "roundedRuntime = \<lparr> math_cos = (\<lambda>x. fl (cos x)), math_sin = (\<lambda>x. fl (sin x)) \<rparr>"

section \<open>The output as a document\<close>

text \<open>
  The markup the templates spell, as a tree: character data, a comment, an element with
  its attributes and its children, and an empty element (with \<open>True\<close> where the template
  puts a space before the closing slash). \<open>xmlText\<close> is the text of a tree, attribute by
  attribute and child by child.
\<close>

datatype xml = Chars string | Remark string
  | Node string "(string \<times> string) list" "xml list"
  | Leaf string "(string \<times> string) list" bool

definition attrText :: "string \<times> string \<Rightarrow> string" where
  \<open>attrText a = '' '' @ fst a @ ''="'' @ snd a @ ''"''\<close>

fun xmlText :: "xml \<Rightarrow> string" where
  \<open>xmlText (Chars s) = s\<close>
| \<open>xmlText (Remark c) = ''<!--'' @ c @ ''-->''\<close>
| \<open>xmlText (Node tag attrs kids) =
     ''<'' @ tag @ concat (map attrText attrs) @ ''>'' @ concat (map xmlText kids) @ ''</'' @ tag @ ''>''\<close>
| \<open>xmlText (Leaf tag attrs sp) =
     ''<'' @ tag @ concat (map attrText attrs) @ (if sp then '' '' else []) @ ''/>''\<close>

definition xmlTexts :: "xml list \<Rightarrow> string" where
  "xmlTexts nodes = concat (map xmlText nodes)"

text \<open>
  A tree is well formed when none of its strings can open or close markup: names are
  made of letters, digits, hyphens and colons, no attribute is given twice, no attribute
  value holds a quote, an angle bracket or an ampersand, character data is white space,
  and a comment holds no hyphen and no angle bracket.
\<close>

definition isName :: "string \<Rightarrow> bool" where
  "isName s = (s \<noteq> [] \<and> list_all (\<lambda>c. c \<in> set ''abcdefghijklmnopqrstuvwxyzABCDEFGHIJKLMNOPQRSTUVWXYZ0123456789-:'') s)"

definition attrSafe :: "string \<Rightarrow> bool" where
  "attrSafe v = list_all (\<lambda>c. c \<notin> set [CHR 0x22, CHR ''<'', CHR ''>'', CHR ''&'']) v"

definition isBlank :: "string \<Rightarrow> bool" where
  "isBlank s = list_all (\<lambda>c. c \<in> set [CHR '' '', CHR 0x0A]) s"

definition attrsOk :: "(string \<times> string) list \<Rightarrow> bool" where
  "attrsOk attrs = (list_all (\<lambda>a. isName (fst a) \<and> attrSafe (snd a)) attrs \<and> distinct (map fst attrs))"

fun wellFormed :: "xml \<Rightarrow> bool" where
  "wellFormed (Chars s) = isBlank s"
| "wellFormed (Remark c) = list_all (\<lambda>ch. ch \<notin> set ''-<>'') c"
| "wellFormed (Node tag attrs kids) = (isName tag \<and> attrsOk attrs \<and> list_all wellFormed kids)"
| "wellFormed (Leaf tag attrs sp) = (isName tag \<and> attrsOk attrs)"

text \<open>The characters that numbers and colours are written with.\<close>

definition plainChar :: "char \<Rightarrow> bool" where
  "plainChar c = (c \<in> set ''0123456789abcdef#+-.'')"

definition plain :: "string \<Rightarrow> bool" where
  "plain s = list_all plainChar s"

section \<open>Drawing through a mask\<close>

text \<open>
  The part of the SVG drawing rules that the wrapper relies on. The shapes of a mask are
  read from its children: a rectangle at the origin given by \<open>width\<close>, \<open>height\<close> and
  \<open>fill\<close>, a circle given by \<open>cx\<close>, \<open>cy\<close>, \<open>r\<close> and \<open>fill\<close>, the numbers written in decimal
  digits and the fill \<open>white\<close> or \<open>black\<close>; white space and comments between them draw
  nothing; any other child is outside what is modelled and gives \<open>None\<close>.
\<close>

definition isDigits :: "string \<Rightarrow> bool" where
  "isDigits s = (s \<noteq> [] \<and> list_all (\<lambda>c. c \<in> set ''0123456789'') s)"

definition natAttr :: "(string \<times> string) list \<Rightarrow> string \<Rightarrow> nat option" where
  "natAttr attrs name = (case map_of attrs name of
       None \<Rightarrow> None
     | Some v \<Rightarrow> if isDigits v then Some (decValue v) else None)"

definition paintAttr :: "(string \<times> string) list \<Rightarrow> paint option" where
  "paintAttr attrs = (case map_of attrs ''fill'' of
       None \<Rightarrow> None
     | Some v \<Rightarrow> if v = ''white'' then Some White else if v = ''black'' then Some Black else None)"

fun maskShape :: "xml \<Rightarrow> mask_shape option" where
  "maskShape (Leaf tag attrs sp) =
     (if tag = ''rect'' \<and> map fst attrs = [''width'', ''height'', ''fill'']
      then do {
        w \<leftarrow> natAttr attrs ''width'';
        h \<leftarrow> natAttr attrs ''height'';
        p \<leftarrow> paintAttr attrs;
        Some (Rect w h p) }
      else if tag = ''circle'' \<and> map fst attrs = [''cx'', ''cy'', ''r'', ''fill'']
      then do {
        cx \<leftarrow> natAttr attrs ''cx'';
        cy \<leftarrow> natAttr attrs ''cy'';
        r \<leftarrow> natAttr attrs ''r'';
        p \<leftarrow> paintAttr attrs;
        Some (Circle cx cy r p) }
      else None)"
| "maskShape (Chars s) = None"
| "maskShape (Remark c) = None"
| "maskShape (Node tag attrs kids) = None"

fun maskShapes :: "xml list \<Rightarrow> mask_shape list option" where
  "maskShapes [] = Some []"
| "maskShapes (Chars s # ks) = maskShapes ks"
| "maskShapes (Remark c # ks) = maskShapes ks"
| "maskShapes (k # ks) = do { sh \<leftarrow> maskShape k; shs \<leftarrow> maskShapes ks; Some (sh # shs) }"

text \<open>
  The masks a tree declares, each with its identifier, in document order; and the
  identifier a reference of the form \<^verbatim>\<open>url(#name)\<close> names.
\<close>

fun masks :: "xml \<Rightarrow> (string \<times> xml list) list" where
  "masks (Chars s) = []"
| "masks (Remark c) = []"
| "masks (Node tag attrs kids) =
     (if tag = ''mask'' then (case map_of attrs ''id'' of None \<Rightarrow> [] | Some i \<Rightarrow> [(i, kids)]) else [])
     @ concat (map masks kids)"
| "masks (Leaf tag attrs sp) = []"

definition urlRef :: "string \<Rightarrow> string option" where
  "urlRef v = (if 6 \<le> length v \<and> take 5 v = ''url(#'' \<and> last v = CHR '')''
     then Some (butlast (drop 5 v)) else None)"

text \<open>
  What a document shows at a point of its canvas, as an opacity. How the artwork itself
  is rasterised is not modelled: \<open>draw kids pt\<close> stands for the opacity of what the
  elements \<open>kids\<close> paint at \<open>pt\<close> when they are drawn with no mask, and every theorem holds
  for every \<open>draw\<close>. Of the children of the root, white space, comments and definitions
  draw nothing; a group with a mask shows its children's opacity times the luminance of
  the mask; anything else is outside what is modelled. What a later child draws lies
  over what an earlier one drew. Points are in the units of the \<open>viewBox\<close>. The region
  a mask is limited to (by default the bounding box of the group, grown by a tenth on
  each side), outside of which the group is not drawn at all, is left out: the mask is
  taken at every point, so where a document is transparent here it is transparent when
  drawn.
\<close>

definition over :: "real \<Rightarrow> real \<Rightarrow> real" where
  "over lower upper = upper + lower * (1 - upper)"

fun nodeOpacity :: "xml \<Rightarrow> (xml list \<Rightarrow> real \<times> real \<Rightarrow> real) \<Rightarrow> xml \<Rightarrow> real \<times> real \<Rightarrow> real option" where
  "nodeOpacity doc draw (Chars s) pt = Some 0"
| "nodeOpacity doc draw (Remark c) pt = Some 0"
| "nodeOpacity doc draw (Leaf tag attrs sp) pt = None"
| "nodeOpacity doc draw (Node tag attrs kids) pt =
     (if tag = ''defs'' then Some 0
      else if tag = ''g'' \<and> map fst attrs = [''mask'']
      then do {
        v \<leftarrow> map_of attrs ''mask'';
        i \<leftarrow> urlRef v;
        mk \<leftarrow> map_of (masks doc) i;
        shapes \<leftarrow> maskShapes mk;
        Some (draw kids pt * maskLuminance shapes pt) }
      else None)"

definition documentOpacity :: "(xml list \<Rightarrow> real \<times> real \<Rightarrow> real) \<Rightarrow> xml \<Rightarrow> real \<times> real \<Rightarrow> real option" where
  "documentOpacity draw doc pt = (case doc of
       Node tag attrs kids \<Rightarrow>
         if tag = ''svg''
         then foldl (\<lambda>acc k. do { lower \<leftarrow> acc; upper \<leftarrow> nodeOpacity doc draw k pt; Some (over lower upper) })
                (Some 0) kids
         else None
     | _ \<Rightarrow> None)"


section \<open>The frames as documents\<close>

text \<open>
  The text of the templates read as markup: the document of \<open>svgWrap\<close> around a list of
  elements, and the list of elements each frame puts there, loop by loop. That the text
  of these trees is the text the generators return is proved below.
\<close>

definition frameDocument :: "xml list \<Rightarrow> xml" where
  \<open>frameDocument content =
     Node ''svg'' [(''xmlns'', ''http://www.w3.org/2000/svg''),
         (''xmlns:xlink'', ''http://www.w3.org/1999/xlink''), (''width'', ''512''),
         (''height'', ''512''), (''viewBox'', ''0 0 512 512'')] (
        [Chars ''\<newline>    '',
         Node ''defs'' [] (
           [Chars ''\<newline>      '',
            Node ''mask'' [(''id'', ''fm'')] (
              [Chars ''\<newline>        '',
               Leaf ''rect'' [(''width'', ''512''), (''height'', ''512''),
                  (''fill'', ''white'')] False,
               Chars ''\<newline>        '',
               Leaf ''circle'' [(''cx'', ''256''), (''cy'', ''256''), (''r'', ''232''),
                  (''fill'', ''black'')] False,
               Chars ''\<newline>      '']),
            Chars ''\<newline>    '']),
         Chars ''\<newline>    '',
         Node ''g'' [(''mask'', ''url(#fm)'')] (
           content),
         Chars ''\<newline>  ''])\<close>

definition sceneSimpleRing :: "tones \<Rightarrow> xml list" where
  \<open>sceneSimpleRing t =
     [Chars ''\<newline>    '',
      Leaf ''circle'' [(''cx'', ''256''), (''cy'', ''256''), (''r'', ''248''),
         (''fill'', dark t)] True,
      Chars ''\<newline>    '',
      Leaf ''circle'' [(''cx'', ''256''), (''cy'', ''256''), (''r'', ''240''),
         (''fill'', base t)] True,
      Chars ''\<newline>    '',
      Leaf ''circle'' [(''cx'', ''256''), (''cy'', ''256''), (''r'', ''234''),
         (''fill'', dark t)] True,
      Chars ''\<newline>  '']\<close>

definition sceneDoubleRing :: "tones \<Rightarrow> xml list" where
  \<open>sceneDoubleRing t =
     [Chars ''\<newline>    '',
      Remark '' outer ring '',
      Chars ''\<newline>    '',
      Leaf ''circle'' [(''cx'', ''256''), (''cy'', ''256''), (''r'', ''252''),
         (''fill'', vdark t)] True,
      Chars ''\<newline>    '',
      Leaf ''circle'' [(''cx'', ''256''), (''cy'', ''256''), (''r'', ''248''),
         (''fill'', base t)] True,
      Chars ''\<newline>    '',
      Leaf ''circle'' [(''cx'', ''256''), (''cy'', ''256''), (''r'', ''243''),
         (''fill'', vdark t)] True,
      Chars ''\<newline>    '',
      Remark '' gap '',
      Chars ''\<newline>    '',
      Leaf ''circle'' [(''cx'', ''256''), (''cy'', ''256''), (''r'', ''240''),
         (''fill'', dark t)] True,
      Chars ''\<newline>    '',
      Remark '' inner ring '',
      Chars ''\<newline>    '',
      Leaf ''circle'' [(''cx'', ''256''), (''cy'', ''256''), (''r'', ''238''),
         (''fill'', vdark t)] True,
      Chars ''\<newline>    '',
      Leaf ''circle'' [(''cx'', ''256''), (''cy'', ''256''), (''r'', ''235''),
         (''fill'', light t)] True,
      Chars ''\<newline>    '',
      Leaf ''circle'' [(''cx'', ''256''), (''cy'', ''256''), (''r'', ''232''),
         (''fill'', vdark t)] True,
      Chars ''\<newline>  '']\<close>

definition ropeStrandNodes :: "runtime \<Rightarrow> tones \<Rightarrow> real \<Rightarrow> nat \<Rightarrow> xml list" where
  \<open>ropeStrandNodes rt t step i =
     (let a0 = fl (fl (of_nat i * step) - fl (Math_PI / 2));
          a1 = fl (a0 + fl (step * fl 0.55));
          x0 = fl (256 + fl (242 * math_cos rt a0));
          y0 = fl (256 + fl (242 * math_sin rt a0));
          x1 = fl (256 + fl (242 * math_cos rt a1));
          y1 = fl (256 + fl (242 * math_sin rt a1));
          fill = (if even i then base t else dark t);
          am = fl (fl (a0 + fl (step * fl 0.275)) + (if even i then fl 0.08 else - fl 0.08));
          xm = fl (256 + fl (234 * math_cos rt am));
          ym = fl (256 + fl (234 * math_sin rt am))
      in [Leaf ''path'' [(''d'', ''M'' @ toFixed1 x0 @ '','' @ toFixed1 y0 @ '' Q'' @ toFixed1 xm @
             '','' @ toFixed1 ym @ '' '' @ toFixed1 x1 @ '','' @ toFixed1 y1), (''stroke'', fill),
             (''stroke-width'', ''9''), (''fill'', ''none''), (''stroke-linecap'', ''round'')] False])\<close>

definition sceneRopeTwist :: "runtime \<Rightarrow> tones \<Rightarrow> xml list" where
  \<open>sceneRopeTwist rt t =
     (let step = fl (fl (2 * Math_PI) / 36);
          strands = concat (map (ropeStrandNodes rt t step) [0..<36])
      in [Chars ''\<newline>    '',
          Leaf ''circle'' [(''cx'', ''256''), (''cy'', ''256''), (''r'', ''252''),
             (''fill'', vdark t)] True,
          Chars ''\<newline>    '',
          Leaf ''circle'' [(''cx'', ''256''), (''cy'', ''256''), (''r'', ''248''),
             (''fill'', dark t)] True,
          Chars ''\<newline>    ''] @
         strands @
         [Chars ''\<newline>    '',
          Leaf ''circle'' [(''cx'', ''256''), (''cy'', ''256''), (''r'', ''233''),
             (''fill'', vdark t)] True,
          Chars ''\<newline>  ''])\<close>

definition petalNodes :: "runtime \<Rightarrow> tones \<Rightarrow> real \<Rightarrow> real \<Rightarrow> real \<Rightarrow> real \<Rightarrow> xml list" where
  \<open>petalNodes rt t cx cy angle sz =
     (let a = fl (fl (angle * Math_PI) / 180);
          tip_x = fl (cx + fl (248 * math_cos rt a));
          tip_y = fl (cy + fl (248 * math_sin rt a));
          lx = fl (cx + fl (238 * math_cos rt (fl (a - fl 0.18))));
          ly = fl (cy + fl (238 * math_sin rt (fl (a - fl 0.18))));
          rx = fl (cx + fl (238 * math_cos rt (fl (a + fl 0.18))));
          ry = fl (cy + fl (238 * math_sin rt (fl (a + fl 0.18))))
      in [Leaf ''path'' [(''d'', ''M'' @ toFixed1 lx @ '','' @ toFixed1 ly @ '' Q'' @ toFixed1 tip_x @
             '','' @ toFixed1 tip_y @ '' '' @ toFixed1 rx @ '','' @ toFixed1 ry),
             (''stroke'', shine t), (''stroke-width'', ''2.5''), (''fill'', ''none'')] False,
          Chars ''\<newline>            '',
          Leaf ''circle'' [(''cx'', toFixed1 tip_x), (''cy'', toFixed1 tip_y),
             (''r'', toFixed1 (fl (sz * fl 0.35))), (''fill'', light t)] False])\<close>

definition vineNodes :: "runtime \<Rightarrow> tones \<Rightarrow> nat \<Rightarrow> xml list" where
  \<open>vineNodes rt t i =
     (let a0 = fl (fl (fl (fl (fl (of_nat i * 45) - 90) + 22) * Math_PI) / 180);
          a1 = fl (fl (fl (fl (fl (of_nat i * 45) - 90) + 44) * Math_PI) / 180);
          x0 = fl (256 + fl (241 * math_cos rt a0));
          y0 = fl (256 + fl (241 * math_sin rt a0));
          x1 = fl (256 + fl (241 * math_cos rt a1));
          y1 = fl (256 + fl (241 * math_sin rt a1));
          xc = fl (256 + fl (fl (241 + 4) * math_cos rt (fl (fl (a0 + a1) / 2))));
          yc = fl (256 + fl (fl (241 + 4) * math_sin rt (fl (fl (a0 + a1) / 2))))
      in [Leaf ''path'' [(''d'', ''M'' @ toFixed1 x0 @ '','' @ toFixed1 y0 @ '' Q'' @ toFixed1 xc @
             '','' @ toFixed1 yc @ '' '' @ toFixed1 x1 @ '','' @ toFixed1 y1), (''stroke'', base t),
             (''stroke-width'', ''2''), (''fill'', ''none'')] False])\<close>

definition sceneOrnateFantasy :: "runtime \<Rightarrow> tones \<Rightarrow> xml list" where
  \<open>sceneOrnateFantasy rt t =
     (let petals = concat (map (\<lambda>i. petalNodes rt t 256 256 (fl (fl (of_nat i * 45) - 90)) 6) [0..<8]);
          vines = concat (map (vineNodes rt t) [0..<8])
      in [Chars ''\<newline>    '',
          Leaf ''circle'' [(''cx'', ''256''), (''cy'', ''256''), (''r'', ''252''),
             (''fill'', vdark t)] True,
          Chars ''\<newline>    '',
          Leaf ''circle'' [(''cx'', ''256''), (''cy'', ''256''), (''r'', ''248''),
             (''fill'', dark t)] True,
          Chars ''\<newline>    '',
          Leaf ''circle'' [(''cx'', ''256''), (''cy'', ''256''), (''r'', ''244''),
             (''fill'', base t)] True,
          Chars ''\<newline>    '',
          Leaf ''circle'' [(''cx'', ''256''), (''cy'', ''256''), (''r'', ''237''),
             (''fill'', dark t)] True,
          Chars ''\<newline>    ''] @
         vines @
         [Chars ''\<newline>    ''] @
         petals @
         [Chars ''\<newline>    '',
          Leaf ''circle'' [(''cx'', ''256''), (''cy'', ''256''), (''r'', ''233''),
             (''fill'', vdark t)] True,
          Chars ''\<newline>  ''])\<close>

definition rivetNodes :: "runtime \<Rightarrow> tones \<Rightarrow> nat \<Rightarrow> xml list" where
  \<open>rivetNodes rt t i =
     (let a = fl (fl (fl (fl (of_nat i / 24) * 2) * Math_PI) - fl (Math_PI / 2));
          x = toFixed1 (fl (256 + fl (242 * math_cos rt a)));
          y = toFixed1 (fl (256 + fl (242 * math_sin rt a)))
      in [Leaf ''circle'' [(''cx'', x), (''cy'', y), (''r'', ''5''), (''fill'', vdark t),
             (''stroke'', shine t), (''stroke-width'', ''1.5'')] False,
          Chars ''\<newline>               '',
          Leaf ''circle'' [(''cx'', x), (''cy'', y), (''r'', ''2''), (''fill'', light t)] False])\<close>

definition bandNodes :: "runtime \<Rightarrow> tones \<Rightarrow> nat \<Rightarrow> xml list" where
  \<open>bandNodes rt t i =
     (let ri = fl (234 + fl (of_nat i * 3));
          op = fl (fl 0.12 + fl (of_nat i * fl 0.04))
      in [Leaf ''circle'' [(''cx'', ''256''), (''cy'', ''256''), (''r'', numberToString ri),
             (''fill'', ''none''), (''stroke'', light t), (''stroke-width'', ''1.5''),
             (''opacity'', numberToString op)] False])\<close>

definition sceneRivetedMetal :: "runtime \<Rightarrow> tones \<Rightarrow> xml list" where
  \<open>sceneRivetedMetal rt t =
     (let rivets = concat (map (rivetNodes rt t) [0..<24]);
          bands = concat (map (bandNodes rt t) [0..<5])
      in [Chars ''\<newline>    '',
          Leaf ''circle'' [(''cx'', ''256''), (''cy'', ''256''), (''r'', ''252''),
             (''fill'', vdark t)] True,
          Chars ''\<newline>    '',
          Leaf ''circle'' [(''cx'', ''256''), (''cy'', ''256''), (''r'', ''249''),
             (''fill'', dark t)] True,
          Chars ''\<newline>    '',
          Leaf ''circle'' [(''cx'', ''256''), (''cy'', ''256''), (''r'', ''237''),
             (''fill'', base t)] True,
          Chars ''\<newline>    ''] @
         bands @
         [Chars ''\<newline>    ''] @
         rivets @
         [Chars ''\<newline>    '',
          Leaf ''circle'' [(''cx'', ''256''), (''cy'', ''256''), (''r'', ''233''),
             (''fill'', vdark t)] True,
          Chars ''\<newline>  ''])\<close>

definition gemNodes :: "runtime \<Rightarrow> tones \<Rightarrow> real \<Rightarrow> real \<Rightarrow> real \<Rightarrow> real \<Rightarrow> xml list" where
  \<open>gemNodes rt t cx cy angle sz =
     (let a = fl (fl (angle * Math_PI) / 180);
          gx = fl (cx + fl (242 * math_cos rt a));
          gy = fl (cy + fl (242 * math_sin rt a));
          s = sz;
          pts = join '' '' (map (\<lambda>p. join '','' (map toFixed1 p)) [
            [fl (gx + fl (fl (math_cos rt a * s) * fl 0.4)),
             fl (gy + fl (fl (math_sin rt a * s) * fl 0.4))],
            [fl (gx + fl (fl (math_cos rt (fl (a + fl 1.2)) * s) * fl 0.55)),
             fl (gy + fl (fl (math_sin rt (fl (a + fl 1.2)) * s) * fl 0.55))],
            [fl (gx + fl (fl (math_cos rt (fl (a + Math_PI)) * s) * fl 0.35)),
             fl (gy + fl (fl (math_sin rt (fl (a + Math_PI)) * s) * fl 0.35))],
            [fl (gx + fl (fl (math_cos rt (fl (a - fl 1.2)) * s) * fl 0.55)),
             fl (gy + fl (fl (math_sin rt (fl (a - fl 1.2)) * s) * fl 0.55))]])
      in [Chars ''\<newline>      '',
          Leaf ''polygon'' [(''points'', pts), (''fill'', base t), (''stroke'', vdark t),
             (''stroke-width'', ''1'')] False,
          Chars ''\<newline>      '',
          Leaf ''polygon'' [(''points'', pts), (''fill'', ''url(#gemGrad)''),
             (''opacity'', ''0.4'')] False,
          Chars ''\<newline>      '',
          Leaf ''circle'' [(''cx'', toFixed1 gx), (''cy'', toFixed1 gy),
             (''r'', toFixed1 (fl (sz * fl 0.18))), (''fill'', shine t),
             (''opacity'', ''0.7'')] False,
          Chars ''\<newline>    ''])\<close>

definition beadNodes :: "runtime \<Rightarrow> tones \<Rightarrow> nat \<Rightarrow> xml list" where
  \<open>beadNodes rt t i =
     (let a = fl (fl (fl (fl (fl (of_nat i + fl 0.5) * 45) - 90) * Math_PI) / 180);
          bx = toFixed1 (fl (256 + fl (242 * math_cos rt a)));
          by = toFixed1 (fl (256 + fl (242 * math_sin rt a)))
      in [Leaf ''circle'' [(''cx'', bx), (''cy'', by), (''r'', ''3.5''), (''fill'', light t),
             (''stroke'', vdark t), (''stroke-width'', ''1'')] False])\<close>

definition sceneGemBorder :: "runtime \<Rightarrow> tones \<Rightarrow> xml list" where
  \<open>sceneGemBorder rt t =
     (let gems = concat (map (\<lambda>i. gemNodes rt t 256 256 (fl (fl (of_nat i * 45) - 90)) 13) [0..<8]);
          beads = concat (map (beadNodes rt t) [0..<8])
      in [Chars ''\<newline>    '',
          Node ''defs'' [] (
            [Chars ''\<newline>      '',
             Node ''radialGradient'' [(''id'', ''gemGrad''), (''cx'', ''35%''), (''cy'', ''35%''),
                (''r'', ''65%'')] (
               [Chars ''\<newline>        '',
                Leaf ''stop'' [(''offset'', ''0%''), (''stop-color'', ''white''),
                   (''stop-opacity'', ''0.9'')] False,
                Chars ''\<newline>        '',
                Leaf ''stop'' [(''offset'', ''100%''), (''stop-color'', ''white''),
                   (''stop-opacity'', ''0'')] False,
                Chars ''\<newline>      '']),
             Chars ''\<newline>    '']),
          Chars ''\<newline>    '',
          Leaf ''circle'' [(''cx'', ''256''), (''cy'', ''256''), (''r'', ''252''),
             (''fill'', vdark t)] True,
          Chars ''\<newline>    '',
          Leaf ''circle'' [(''cx'', ''256''), (''cy'', ''256''), (''r'', ''249''),
             (''fill'', dark t)] True,
          Chars ''\<newline>    '',
          Leaf ''circle'' [(''cx'', ''256''), (''cy'', ''256''), (''r'', ''236''),
             (''fill'', base t)] True,
          Chars ''\<newline>    '',
          Leaf ''circle'' [(''cx'', ''256''), (''cy'', ''256''), (''r'', ''233''),
             (''fill'', dark t)] True,
          Chars ''\<newline>    ''] @
         beads @
         [Chars ''\<newline>    ''] @
         gems @
         [Chars ''\<newline>  ''])\<close>

text \<open>The scenes of the six entries of the registry, in its order.\<close>

definition frameScenes :: "runtime \<Rightarrow> tones \<Rightarrow> xml list list" where
  "frameScenes rt t = [sceneSimpleRing t, sceneDoubleRing t, sceneRopeTwist rt t,
     sceneOrnateFantasy rt t, sceneRivetedMetal rt t, sceneGemBorder rt t]"

section \<open>Rounding\<close>

lemma pow2_powi: "pow2 k = 2 powi k"
  by (simp add: pow2_def power_int_def inverse_eq_divide power_one_over)

lemma pow2_pos: "0 < pow2 k"
  by (simp add: pow2_powi)

lemma pow2_add: "pow2 (a + b) = pow2 a * pow2 b"
  by (simp add: pow2_powi power_int_add)

lemma pow2_mono: "a \<le> b \<Longrightarrow> pow2 a \<le> pow2 b"
  by (simp add: pow2_powi power_int_increasing)

lemma pow2_strict_mono: "a < b \<Longrightarrow> pow2 a < pow2 b"
  by (simp add: pow2_powi power_int_strict_increasing)

lemma expo_bounds:
  assumes "0 < x"
  shows "pow2 (expo x) \<le> x" and "x < pow2 (expo x + 1)"
proof -
  have "pow2 (expo x) \<le> x \<and> x < pow2 (expo x + 1)"
  proof (cases "1 \<le> x")
    case True
    define n where "n = \<lfloor>x\<rfloor>"
    have n: "0 < n" using True by (simp add: n_def)
    have b1: "1 \<le> bitlen n" using n bitlen_eq_zero_iff [of n] bitlen_nonneg [of n] by linarith
    from bitlen_bounds [OF n]
    have lo: "2 ^ nat (bitlen n - 1) \<le> n" and hi: "n < 2 ^ nat (bitlen n)" by auto
    have e: "expo x = bitlen n - 1" using True by (simp add: expo_def n_def)
    have "pow2 (expo x) = of_int (2 ^ nat (bitlen n - 1))"
      using b1 by (simp add: e pow2_def)
    also have "\<dots> \<le> of_int n" using lo by (simp only: of_int_le_iff)
    also have "\<dots> \<le> x" by (simp add: n_def)
    finally have A: "pow2 (expo x) \<le> x" .
    have "n + 1 \<le> 2 ^ nat (bitlen n)" using hi by simp
    then have "of_int (n + 1) \<le> (of_int (2 ^ nat (bitlen n)) :: real)" by (simp only: of_int_le_iff)
    moreover have "x < of_int (n + 1)" by (simp add: n_def)
    moreover have "pow2 (expo x + 1) = of_int (2 ^ nat (bitlen n))"
      using b1 by (simp add: e pow2_def)
    ultimately have B: "x < pow2 (expo x + 1)" by simp
    show ?thesis using A B by simp
  next
    case False
    define y where "y = 1 / x"
    define m where "m = \<lceil>y\<rceil> - 1"
    have y1: "1 < y" using False assms by (simp add: y_def)
    have m: "0 < m" using y1 by (simp add: m_def)
    have b1: "1 \<le> bitlen m" using m bitlen_eq_zero_iff [of m] bitlen_nonneg [of m] by linarith
    from bitlen_bounds [OF m]
    have lo: "2 ^ nat (bitlen m - 1) \<le> m" and hi: "m < 2 ^ nat (bitlen m)" by auto
    have e: "expo x = - bitlen m" using False by (simp add: expo_def m_def y_def)
    have my: "of_int m < y" unfolding m_def by linarith
    have ym: "y \<le> of_int (m + 1)" unfolding m_def by simp
    have "(of_int (2 ^ nat (bitlen m - 1)) :: real) \<le> of_int m" using lo by (simp only: of_int_le_iff)
    then have "(of_int (2 ^ nat (bitlen m - 1)) :: real) < y" using my by linarith
    then have ylo: "2 ^ nat (bitlen m - 1) < y" by simp
    have "m + 1 \<le> 2 ^ nat (bitlen m)" using hi by simp
    then have "of_int (m + 1) \<le> (of_int (2 ^ nat (bitlen m)) :: real)" by (simp only: of_int_le_iff)
    then have yhi: "y \<le> 2 ^ nat (bitlen m)" using ym by simp
    have x: "x = 1 / y" by (simp add: y_def)
    have ypos: "0 < y" using y1 by simp
    have A: "pow2 (expo x) \<le> x"
    proof -
      have "pow2 (expo x) = 1 / 2 ^ nat (bitlen m)" using b1 by (simp add: e pow2_def)
      also have "\<dots> \<le> 1 / y" using yhi ypos by (simp add: frac_le)
      finally show ?thesis by (simp add: x)
    qed
    have B: "x < pow2 (expo x + 1)"
    proof -
      have "pow2 (expo x + 1) = 1 / 2 ^ nat (bitlen m - 1)"
      proof (cases "bitlen m = 1")
        case True then show ?thesis by (simp add: e pow2_def)
      next
        case False
        then have "1 < bitlen m" using b1 by simp
        then show ?thesis by (simp add: e pow2_def)
      qed
      moreover have "1 / y < 1 / 2 ^ nat (bitlen m - 1)"
        using ylo by (simp add: frac_less2)
      ultimately show ?thesis by (simp add: x)
    qed
    show ?thesis using A B by simp
  qed
  then show "pow2 (expo x) \<le> x" and "x < pow2 (expo x + 1)" by simp_all
qed

lemma expo_mono:
  assumes "0 < x" "x \<le> y"
  shows "expo x \<le> expo y"
proof (rule ccontr)
  assume "\<not> expo x \<le> expo y"
  then have "expo y + 1 \<le> expo x" by simp
  then have "pow2 (expo y + 1) \<le> pow2 (expo x)" by (rule pow2_mono)
  moreover have "y < pow2 (expo y + 1)" using assms by (intro expo_bounds) simp
  moreover have "pow2 (expo x) \<le> x" using assms by (intro expo_bounds)
  ultimately show False using assms by simp
qed

lemma rnd_even_ge_floor: "\<lfloor>x\<rfloor> \<le> rnd_even x"
  by (simp add: rnd_even_def Let_def)

lemma rnd_even_le_ceiling: "rnd_even x \<le> \<lfloor>x\<rfloor> + 1"
  by (simp add: rnd_even_def Let_def)

lemma rnd_even_of_int: "rnd_even (of_int n) = n"
  by (simp add: rnd_even_def Let_def)

lemma rnd_even_mono:
  assumes "x \<le> y"
  shows "rnd_even x \<le> rnd_even y"
proof (cases "\<lfloor>x\<rfloor> = \<lfloor>y\<rfloor>")
  case True
  then show ?thesis using assms by (auto simp add: rnd_even_def Let_def)
next
  case False
  then have "\<lfloor>x\<rfloor> < \<lfloor>y\<rfloor>" using assms floor_mono [of x y] by simp
  then have "rnd_even x \<le> \<lfloor>y\<rfloor>" using rnd_even_le_ceiling [of x] by simp
  then show ?thesis using rnd_even_ge_floor [of y] by simp
qed

lemma rnd_even_ge: "of_int n \<le> x \<Longrightarrow> n \<le> rnd_even x"
  using rnd_even_mono [of "of_int n" x] by (simp add: rnd_even_of_int)

lemma rnd_even_le: "x \<le> of_int n \<Longrightarrow> rnd_even x \<le> n"
  using rnd_even_mono [of x "of_int n"] by (simp add: rnd_even_of_int)

lemma fl_flp: "fl x = (if x = 0 then 0 else sgn x * flp \<bar>x\<bar>)"
  by (simp add: fl_def flp_def Let_def)

lemma flp_bounds:
  assumes "0 < x"
  shows "pow2 (expo x) \<le> flp x" and "flp x \<le> pow2 (expo x + 1)"
proof -
  let ?u = "pow2 (expo x - 52)"
  have u: "0 < ?u" by (rule pow2_pos)
  have p52: "pow2 52 = of_int (2 ^ 52)" and p53: "pow2 53 = of_int (2 ^ 53)"
    by (simp_all add: pow2_def)
  have e0: "pow2 (expo x) = pow2 52 * ?u" using pow2_add [of 52 "expo x - 52"] by simp
  have e1: "pow2 (expo x + 1) = pow2 53 * ?u" using pow2_add [of 53 "expo x - 52"] by (simp add: add.commute)
  have "pow2 52 * ?u \<le> x" using expo_bounds(1) [OF assms] e0 by simp
  then have "pow2 52 \<le> x / ?u" using u by (simp add: pos_le_divide_eq)
  then have "2 ^ 52 \<le> rnd_even (x / ?u)" unfolding p52 by (rule rnd_even_ge)
  then have "(of_int (2 ^ 52) :: real) \<le> of_int (rnd_even (x / ?u))" by (simp only: of_int_le_iff)
  then have "pow2 52 * ?u \<le> of_int (rnd_even (x / ?u)) * ?u"
    using u unfolding p52 by (intro mult_right_mono) simp_all
  then show "pow2 (expo x) \<le> flp x" by (simp add: flp_def e0)
  have "x < pow2 53 * ?u" using expo_bounds(2) [OF assms] e1 by simp
  then have "x / ?u \<le> pow2 53" using u by (simp add: pos_divide_le_eq)
  then have "rnd_even (x / ?u) \<le> 2 ^ 53" unfolding p53 by (rule rnd_even_le)
  then have "(of_int (rnd_even (x / ?u)) :: real) \<le> of_int (2 ^ 53)" by (simp only: of_int_le_iff)
  then have "of_int (rnd_even (x / ?u)) * ?u \<le> pow2 53 * ?u"
    using u unfolding p53 by (intro mult_right_mono) simp_all
  then show "flp x \<le> pow2 (expo x + 1)" by (simp add: flp_def e1)
qed

lemma flp_pos: "0 < x \<Longrightarrow> 0 < flp x"
  using flp_bounds(1) [of x] pow2_pos [of "expo x"] by simp

lemma flp_mono:
  assumes "0 < x" "x \<le> y"
  shows "flp x \<le> flp y"
proof (cases "expo x = expo y")
  case True
  have "x / pow2 (expo y - 52) \<le> y / pow2 (expo y - 52)"
    using assms pow2_pos [of "expo y - 52"] by (simp add: divide_right_mono)
  then have "rnd_even (x / pow2 (expo y - 52)) \<le> rnd_even (y / pow2 (expo y - 52))"
    by (rule rnd_even_mono)
  then have "(of_int (rnd_even (x / pow2 (expo y - 52))) :: real) \<le> of_int (rnd_even (y / pow2 (expo y - 52)))"
    by (simp only: of_int_le_iff)
  then show ?thesis using pow2_pos [of "expo y - 52"]
    by (simp add: flp_def True mult_right_mono)
next
  case False
  then have "expo x + 1 \<le> expo y" using expo_mono [OF assms] by simp
  then have "pow2 (expo x + 1) \<le> pow2 (expo y)" by (rule pow2_mono)
  moreover have "flp x \<le> pow2 (expo x + 1)" using assms by (intro flp_bounds)
  moreover have "pow2 (expo y) \<le> flp y" using assms by (intro flp_bounds) simp
  ultimately show ?thesis by simp
qed

lemma fl_zero: "fl 0 = 0"
  by (simp add: fl_def)

lemma fl_minus: "fl (- x) = - fl x"
  by (simp add: fl_flp)

lemma fl_pos: "0 < x \<Longrightarrow> 0 < fl x"
  by (simp add: fl_flp flp_pos)

lemma fl_neg: "x < 0 \<Longrightarrow> fl x < 0"
  using fl_pos [of "- x"] by (simp add: fl_minus)

lemma fl_eq_0_iff: "fl x = 0 \<longleftrightarrow> x = 0"
  using fl_pos [of x] fl_neg [of x] fl_zero by (cases "x = 0"; cases "0 < x") auto

lemma fl_mono:
  assumes "x \<le> y"
  shows "fl x \<le> fl y"
proof -
  consider "0 < x" | "x = 0" | "x < 0" "0 \<le> y" | "x < 0" "y < 0" by linarith
  then show ?thesis
  proof cases
    case 1
    then show ?thesis using assms flp_mono [of x y] by (simp add: fl_flp)
  next
    case 2
    then show ?thesis using assms fl_pos [of y] by (cases "y = 0") (simp_all add: fl_zero less_imp_le)
  next
    case 3
    then show ?thesis using fl_neg [of x] fl_pos [of y] by (cases "y = 0") (simp_all add: fl_zero less_imp_le dual_order.strict_implies_order order_trans)
  next
    case 4
    then have "flp (- y) \<le> flp (- x)" using assms by (intro flp_mono) simp_all
    then show ?thesis using 4 by (simp add: fl_flp)
  qed
qed

lemma fl_nonneg: "0 \<le> x \<Longrightarrow> 0 \<le> fl x"
  using fl_mono [of 0 x] by (simp add: fl_zero)

lemma bind_weak_cong: "x = y \<Longrightarrow> Option.bind x f = Option.bind y f"
  by simp

lemmas fl_eval = fl_def expo_def pow2_def rnd_even_def compute_bitlen Let_def

lemma fl_consts:
  "fl 1 = 1" "fl 2 = 2" "fl 3 = 3" "fl 5 = 5" "fl 6 = 6" "fl 100 = 100" "fl 360 = 360"
  by (simp_all add: fl_eval)

lemma fl_unit: "0 \<le> x \<Longrightarrow> x \<le> 1 \<Longrightarrow> 0 \<le> fl x \<and> fl x \<le> 1"
  using fl_mono [of 0 x] fl_mono [of x 1] by (simp add: fl_zero fl_consts)

lemma fl_ratio:
  assumes "0 < d" "- d \<le> x" "x \<le> d"
  shows "- 1 \<le> fl (x / d)" and "fl (x / d) \<le> 1"
proof -
  have "- 1 \<le> x / d" using assms by (simp add: pos_le_divide_eq)
  then have "fl (- 1) \<le> fl (x / d)" by (rule fl_mono)
  then show "- 1 \<le> fl (x / d)" by (simp add: fl_minus fl_consts)
  have "x / d \<le> 1" using assms by (simp add: pos_divide_le_eq)
  then have "fl (x / d) \<le> fl 1" by (rule fl_mono)
  then show "fl (x / d) \<le> 1" by (simp add: fl_consts)
qed

lemma mathRound_scaled:
  assumes "0 \<le> x" "x \<le> 1" "fl (of_int c) = of_int c" "0 \<le> c"
  shows "0 \<le> mathRound (fl (x * of_int c))" and "mathRound (fl (x * of_int c)) \<le> c"
proof -
  have "0 \<le> x * of_int c" using assms by simp
  then have lo: "0 \<le> fl (x * of_int c)" by (rule fl_nonneg)
  have "x * of_int c \<le> 1 * of_int c" using assms by (intro mult_right_mono) simp_all
  then have "fl (x * of_int c) \<le> fl (of_int c)" by (intro fl_mono) simp
  then have hi: "fl (x * of_int c) \<le> of_int c" using assms by simp
  show "0 \<le> mathRound (fl (x * of_int c))" using lo by (simp add: mathRound_def)
  have "fl (x * of_int c) + 1 / 2 < of_int (c + 1)" using hi by simp
  then have "\<lfloor>fl (x * of_int c) + 1 / 2\<rfloor> < c + 1" by (simp only: floor_less_iff)
  then show "mathRound (fl (x * of_int c)) \<le> c" by (simp add: mathRound_def)
qed

lemma mathRound_360:
  assumes "0 \<le> x" "x \<le> 1"
  shows "0 \<le> mathRound (fl (x * 360))" and "mathRound (fl (x * 360)) \<le> 360"
  using mathRound_scaled [OF assms, of 360] by (simp_all add: fl_consts)

lemma mathRound_100:
  assumes "0 \<le> x" "x \<le> 1"
  shows "0 \<le> mathRound (fl (x * 100))" and "mathRound (fl (x * 100)) \<le> 100"
  using mathRound_scaled [OF assms, of 100] by (simp_all add: fl_consts)

lemma channel_unit:
  assumes "0 \<le> R" "R \<le> 255"
  shows "0 \<le> fl (of_int R / 255)" and "fl (of_int R / 255) \<le> 1"
  using fl_unit [of "of_int R / 255"] assms by simp_all

text \<open>The hue of one \<open>case\<close> of the \<open>switch\<close>: \<open>x\<close> is the difference of two channels.\<close>

lemma hue_case:
  assumes d: "0 < d" and x: "- d \<le> fl x" "fl x \<le> d"
      and c: "(c = 0 \<and> 0 \<le> x) \<or> c = 2 \<or> c = 4 \<or> (c = 6 \<and> x < 0)"
  shows "\<exists>h. (do { q \<leftarrow> fdiv (fl x) d; Some (fl (fl (q + c) / 6)) }) = Some h \<and> 0 \<le> h \<and> h \<le> 1"
proof -
  define q where "q = fl (fl x / d)"
  have q: "- 1 \<le> q" "q \<le> 1" unfolding q_def using fl_ratio [OF d x] by simp_all
  have qc: "0 \<le> q + c \<and> q + c \<le> 6"
  proof -
    consider "c = 0" "0 \<le> x" | "c = 2 \<or> c = 4" | "c = 6" "x < 0"
      using c by fastforce
    then show ?thesis
    proof cases
      case 1
      then have "0 \<le> fl x" by (simp add: fl_nonneg)
      then have "0 \<le> fl x / d" using d by simp
      then have "0 \<le> q" unfolding q_def by (rule fl_nonneg)
      then show ?thesis using q 1 by simp
    next
      case 2
      then show ?thesis using q by auto
    next
      case 3
      then have "fl x < 0" by (simp add: fl_neg)
      then have "fl x / d < 0" using d by (simp add: divide_neg_pos)
      then have "q < 0" unfolding q_def by (rule fl_neg)
      then show ?thesis using q 3 by simp
    qed
  qed
  have "fl 0 \<le> fl (q + c)" and "fl (q + c) \<le> fl 6" using qc by (simp_all add: fl_mono)
  then have "0 \<le> fl (q + c) / 6" and "fl (q + c) / 6 \<le> 1" by (simp_all add: fl_zero fl_consts)
  then have "0 \<le> fl (fl (q + c) / 6) \<and> fl (fl (q + c) / 6) \<le> 1" by (rule fl_unit)
  moreover have "(do { q \<leftarrow> fdiv (fl x) d; Some (fl (fl (q + c) / 6)) }) = Some (fl (fl (q + c) / 6))"
    using d by (simp add: fdiv_def q_def)
  ultimately show ?thesis by simp
qed

text \<open>The saturation: a quotient of the chroma by a number that is at least the chroma.\<close>

lemma sat_case:
  assumes "0 < d" "d \<le> e"
  shows "\<exists>s. fdiv d e = Some s \<and> 0 \<le> s \<and> s \<le> 1"
proof -
  have "0 \<le> d / e" and "d / e \<le> 1" using assms by simp_all
  then have "0 \<le> fl (d / e) \<and> fl (d / e) \<le> 1" by (rule fl_unit)
  then show ?thesis using assms by (simp add: fdiv_def)
qed

lemma hexToHSL_channels:
  assumes p: "parseInt16 (slice 1 3 hex) = Some R" "parseInt16 (slice 3 5 hex) = Some G"
             "parseInt16 (slice 5 7 hex) = Some B"
      and R: "0 \<le> R" "R \<le> 255" and G: "0 \<le> G" "G \<le> 255" and B: "0 \<le> B" "B \<le> 255"
  shows "\<exists>h s l. hexToHSL hex = Some (h, s, l) \<and> 0 \<le> h \<and> h \<le> 360 \<and> 0 \<le> s \<and> s \<le> 100
           \<and> 0 \<le> l \<and> l \<le> 100 \<and> (R = G \<and> G = B \<longrightarrow> h = 0 \<and> s = 0)"
proof -
  define r where "r = fl (of_int R / 255)"
  define g where "g = fl (of_int G / 255)"
  define b where "b = fl (of_int B / 255)"
  define mx where "mx = max r (max g b)"
  define mn where "mn = min r (min g b)"
  define l where "l = fl (fl (mx + mn) / 2)"
  define d where "d = fl (mx - mn)"
  define sv where "sv = (if 1 / 2 < l then fdiv d (fl (fl (2 - mx) - mn)) else fdiv d (fl (mx + mn)))"
  define hv where "hv = (if mx = r then do {
                 q \<leftarrow> fdiv (fl (g - b)) d;
                 Some (fl (fl (q + (if g < b then 6 else 0)) / 6)) }
              else if mx = g then do {
                 q \<leftarrow> fdiv (fl (b - r)) d;
                 Some (fl (fl (q + 2) / 6)) }
              else if mx = b then do {
                 q \<leftarrow> fdiv (fl (r - g)) d;
                 Some (fl (fl (q + 4) / 6)) }
              else None)"
  have eq: "hexToHSL hex = do {
      hs \<leftarrow> (if mx = mn then Some (0, 0) else do { s \<leftarrow> sv; h \<leftarrow> hv; Some (h, s) });
      Some (mathRound (fl (fst hs * 360)), mathRound (fl (snd hs * 100)), mathRound (fl (l * 100))) }"
    unfolding hexToHSL_def p sv_def hv_def d_def l_def mn_def mx_def b_def g_def r_def
    by (simp only: Option.bind.bind_lunit Let_def)
  have r: "0 \<le> r" "r \<le> 1" unfolding r_def using channel_unit [OF R] by simp_all
  have g: "0 \<le> g" "g \<le> 1" unfolding g_def using channel_unit [OF G] by simp_all
  have b: "0 \<le> b" "b \<le> 1" unfolding b_def using channel_unit [OF B] by simp_all
  have mx: "0 \<le> mx" "mx \<le> 1" "r \<le> mx" "g \<le> mx" "b \<le> mx" using r g b by (simp_all add: mx_def)
  have mn: "0 \<le> mn" "mn \<le> 1" "mn \<le> r" "mn \<le> g" "mn \<le> b" using r g b by (simp_all add: mn_def)
  have mnmx: "mn \<le> mx" using mx mn by simp
  have "fl 0 \<le> fl (mx + mn)" and "fl (mx + mn) \<le> fl 2" using mx mn by (simp_all add: fl_mono)
  then have "0 \<le> fl (mx + mn) / 2" and "fl (mx + mn) / 2 \<le> 1" by (simp_all add: fl_zero fl_consts)
  then have l: "0 \<le> l" "l \<le> 1" unfolding l_def using fl_unit by simp_all
  note lr = mathRound_100 [OF l]
  show ?thesis
  proof (cases "mx = mn")
    case True
    have "hexToHSL hex = Some (0, 0, mathRound (fl (l * 100)))"
      by (simp add: eq True fl_zero mathRound_def)
    then show ?thesis using lr by simp
  next
    case False
    then have ne: "R \<noteq> G \<or> G \<noteq> B"
      by (auto simp add: mx_def mn_def r_def g_def b_def)
    have "0 < mx - mn" using False mnmx by simp
    then have d: "0 < d" unfolding d_def by (rule fl_pos)
    have dx: "- d \<le> fl (x - y) \<and> fl (x - y) \<le> d"
      if "mn \<le> x" "x \<le> mx" "mn \<le> y" "y \<le> mx" for x y
    proof -
      have "fl (mn - mx) \<le> fl (x - y)" and "fl (x - y) \<le> fl (mx - mn)"
        using that by (simp_all add: fl_mono)
      moreover have "fl (mn - mx) = - fl (mx - mn)" using fl_minus [of "mx - mn"] by simp
      ultimately show ?thesis by (simp add: d_def)
    qed
    have "\<exists>s. sv = Some s \<and> 0 \<le> s \<and> s \<le> 1"
    proof (cases "1 / 2 < l")
      case True
      have "fl 1 \<le> fl (2 - mx)" using mx by (intro fl_mono) simp
      then have "mx - mn \<le> fl (2 - mx) - mn" using mx by (simp add: fl_consts)
      then have "d \<le> fl (fl (2 - mx) - mn)" unfolding d_def by (rule fl_mono)
      then show ?thesis using True sat_case [OF d] by (simp add: sv_def)
    next
      case False
      have "mx - mn \<le> mx + mn" using mn by simp
      then have "d \<le> fl (mx + mn)" unfolding d_def by (rule fl_mono)
      then show ?thesis using False sat_case [OF d] by (simp add: sv_def)
    qed
    then obtain s where s: "sv = Some s" "0 \<le> s" "s \<le> 1" by blast
    have "\<exists>h. hv = Some h \<and> 0 \<le> h \<and> h \<le> 1"
    proof -
      have "mx = r \<or> mx = g \<or> mx = b" by (auto simp add: mx_def max_def)
      then consider "mx = r" | "mx \<noteq> r" "mx = g" | "mx \<noteq> r" "mx \<noteq> g" "mx = b"
        by blast
      then show ?thesis
      proof cases
        case 1
        have "(if g < b then 6 else 0) = (0::real) \<and> 0 \<le> g - b \<or> (if g < b then 6 else 0) = (2::real)
          \<or> (if g < b then 6 else 0) = (4::real) \<or> ((if g < b then 6 else 0) = (6::real) \<and> g - b < 0)"
          by simp
        from hue_case [OF d _ _ this] dx [of g b] mx mn 1 show ?thesis by (simp add: hv_def)
      next
        case 2
        from hue_case [OF d, of "b - r" 2] dx [of b r] mx mn 2 show ?thesis by (simp add: hv_def)
      next
        case 3
        from hue_case [OF d, of "r - g" 4] dx [of r g] mx mn 3 show ?thesis by (simp add: hv_def)
      qed
    qed
    then obtain h where h: "hv = Some h" "0 \<le> h" "h \<le> 1" by blast
    have "hexToHSL hex = Some (mathRound (fl (h * 360)), mathRound (fl (s * 100)), mathRound (fl (l * 100)))"
      by (simp add: eq False s h)
    then show ?thesis using lr mathRound_360 [OF h(2,3)] mathRound_100 [OF s(2,3)] ne by auto
  qed
qed


section \<open>Valid colours\<close>

lemma hexval_less: "hexval c = Some v \<Longrightarrow> v < 16"
  by (auto simp add: hexval_def Let_def split: if_splits)

lemma hexval_not_space: "hexval c = Some v \<Longrightarrow> \<not> isWhiteSpace c"
  by (auto simp add: hexval_def isWhiteSpace_def Let_def split: if_splits)

lemma hexval_not_special:
  assumes "hexval c = Some v"
  shows "c \<noteq> CHR ''+''" "c \<noteq> CHR ''-''" "c \<noteq> CHR ''x''" "c \<noteq> CHR ''X''"
  using assms by (auto simp add: hexval_def)

lemma parseInt16_two:
  assumes "hexval c1 = Some v1" "hexval c2 = Some v2"
  shows "parseInt16 [c1, c2] = Some (int (16 * v1 + v2))"
  using assms hexval_not_space [OF assms(1)] hexval_not_special [OF assms(1)]
    hexval_not_special [OF assms(2)]
  by (simp add: parseInt16_def Let_def)

lemma valid_hex_digits:
  assumes "valid_hex hex"
  obtains c1 c2 c3 c4 c5 c6 v1 v2 v3 v4 v5 v6 where
    "hex = [CHR ''#'', c1, c2, c3, c4, c5, c6]"
    "hexval c1 = Some v1" "hexval c2 = Some v2" "hexval c3 = Some v3"
    "hexval c4 = Some v4" "hexval c5 = Some v5" "hexval c6 = Some v6"
proof -
  from assms obtain ds where hex: "hex = CHR ''#'' # ds" and len: "length ds = 6"
    and all: "list_all (\<lambda>d. hexval d \<noteq> None) ds"
    by (auto simp add: valid_hex_def split: list.splits)
  from len obtain c1 c2 c3 c4 c5 c6 where ds: "ds = [c1, c2, c3, c4, c5, c6]"
    by (auto simp add: length_Suc_conv eval_nat_numeral)
  with all hex that show thesis by auto
qed

lemma valid_hex_parse:
  assumes "valid_hex hex"
  obtains R G B where
    "parseInt16 (slice 1 3 hex) = Some R" "parseInt16 (slice 3 5 hex) = Some G"
    "parseInt16 (slice 5 7 hex) = Some B"
    "0 \<le> R" "R \<le> 255" "0 \<le> G" "G \<le> 255" "0 \<le> B" "B \<le> 255"
proof -
  from assms obtain c1 c2 c3 c4 c5 c6 v1 v2 v3 v4 v5 v6 where
    hex: "hex = [CHR ''#'', c1, c2, c3, c4, c5, c6]" and
    v: "hexval c1 = Some v1" "hexval c2 = Some v2" "hexval c3 = Some v3"
       "hexval c4 = Some v4" "hexval c5 = Some v5" "hexval c6 = Some v6"
    by (rule valid_hex_digits)
  have s: "slice 1 3 hex = [c1, c2]" "slice 3 5 hex = [c3, c4]" "slice 5 7 hex = [c5, c6]"
    by (simp_all add: hex slice_def)
  note lt = v [THEN hexval_less]
  show thesis
  proof (rule that)
    show "parseInt16 (slice 1 3 hex) = Some (int (16 * v1 + v2))"
      unfolding s by (rule parseInt16_two [OF v(1,2)])
    show "parseInt16 (slice 3 5 hex) = Some (int (16 * v3 + v4))"
      unfolding s by (rule parseInt16_two [OF v(3,4)])
    show "parseInt16 (slice 5 7 hex) = Some (int (16 * v5 + v6))"
      unfolding s by (rule parseInt16_two [OF v(5,6)])
  qed (use lt in simp_all)
qed

lemma hexToHSL_valid:
  assumes "valid_hex hex"
  shows "\<exists>h s l. hexToHSL hex = Some (h, s, l) \<and> 0 \<le> h \<and> h \<le> 360 \<and> 0 \<le> s \<and> s \<le> 100
           \<and> 0 \<le> l \<and> l \<le> 100 \<and> (achromatic hex \<longrightarrow> h = 0 \<and> s = 0)"
proof -
  from assms obtain R G B where
    p: "parseInt16 (slice 1 3 hex) = Some R" "parseInt16 (slice 3 5 hex) = Some G"
       "parseInt16 (slice 5 7 hex) = Some B"
    and R: "0 \<le> R" "R \<le> 255" and G: "0 \<le> G" "G \<le> 255" and B: "0 \<le> B" "B \<le> 255"
    by (rule valid_hex_parse)
  have "achromatic hex \<longleftrightarrow> R = G \<and> G = B" unfolding achromatic_def p by simp
  with hexToHSL_channels [OF p R G B] show ?thesis by auto
qed

lemma toneVariants_Some:
  assumes "hexToHSL hex = Some (h, s, l)"
  shows "toneVariants hex = Some \<lparr>
          base = hslToHex h s l,
          light = hslToHex h (max (s - 5) 0) (min (l + 22) 92),
          dark = hslToHex h (min (s + 5) 100) (max (l - 22) 8),
          vdark = hslToHex h (min (s + 10) 100) (max (l - 38) 4),
          shine = hslToHex h (max (s - 15) 0) (min (l + 38) 96) \<rparr>"
  by (simp add: toneVariants_def assms)

lemma toneVariants_valid:
  assumes "valid_hex hex"
  shows "\<exists>t. toneVariants hex = Some t"
proof -
  from hexToHSL_valid [OF assms] obtain h s l where "hexToHSL hex = Some (h, s, l)" by blast
  then show ?thesis by (simp add: toneVariants_Some)
qed

section \<open>Evaluation\<close>

lemmas color_eval = hexToHSL_def parseInt16_def slice_def hexval_def isWhiteSpace_def fdiv_def
  mathRound_def hslToHex_def hslToHex_f_def fmod_def padStart2_def toString16_def hexDigit_def
  natToHex.simps

lemma hexToHSL_white: "hexToHSL ''#ffffff'' = Some (0, 0, 100)"
  by (simp add: color_eval fl_eval cong: let_weak_cong bind_weak_cong)

lemma hexToHSL_grey: "hexToHSL ''#808080'' = Some (0, 0, 50)"
  by (simp add: color_eval fl_eval cong: let_weak_cong bind_weak_cong)

lemma hexToHSL_gold: "hexToHSL ''#c0922a'' = Some (42, 64, 46)"
  by (simp add: color_eval fl_eval cong: let_weak_cong bind_weak_cong)

lemma hexToHSL_red1: "hexToHSL ''#ff0001'' = Some (360, 100, 50)"
  by (simp add: color_eval fl_eval cong: let_weak_cong bind_weak_cong)

lemma valid_hex_examples:
  "valid_hex ''#ffffff''" "valid_hex ''#808080''" "valid_hex ''#c0922a''" "valid_hex ''#C0922A''"
  "valid_hex ''#ff0001''"
  by (simp_all add: valid_hex_def hexval_def)

section \<open>The range of \<open>hexToHSL\<close>\<close>

text \<open>
  C3, as stated, fails: the hue of \<open>#ff0001\<close> is \<open>359.76\<close> before rounding, and
  \<open>Math.round\<close> takes it to 360, outside the half-open range.
\<close>

theorem hexToHSL_hue_360_counterexample:
  "valid_hex ''#ff0001'' \<and> hexToHSL ''#ff0001'' = Some (360, 100, 50)"
  by (simp add: valid_hex_examples hexToHSL_red1)

text \<open>
  C3, amended: for every valid six-digit colour \<open>hexToHSL\<close> returns a triple of integers
  with the hue in the closed range from 0 to 360 and saturation and lightness from 0 to 100.
\<close>

theorem hexToHSL_range:
  assumes "valid_hex hex"
  shows "\<exists>h s l. hexToHSL hex = Some (h, s, l) \<and> 0 \<le> h \<and> h \<le> 360 \<and> 0 \<le> s \<and> s \<le> 100
           \<and> 0 \<le> l \<and> l \<le> 100"
  using hexToHSL_valid [OF assms] by blast

theorem hexToHSL_range_witness:
  "valid_hex ''#c0922a'' \<and> (\<exists>h s l. hexToHSL ''#c0922a'' = Some (h, s, l) \<and> 0 \<le> h \<and> h \<le> 360
     \<and> 0 \<le> s \<and> s \<le> 100 \<and> 0 \<le> l \<and> l \<le> 100)"
  using hexToHSL_range [of "''#c0922a''"] by (simp add: valid_hex_examples)


lemma toneVariants_gold:
  "toneVariants ''#c0922a'' = Some \<lparr> base = ''#c0932a'', light = ''#dec17d'', dark = ''#674e13'',
     vdark = ''#231a05'', shine = ''#eadec2'' \<rparr>"
  apply (simp only: toneVariants_def hexToHSL_gold option.case prod.case)
  apply (simp add: color_eval fl_eval cong: let_weak_cong bind_weak_cong)
  done

lemma toneVariants_tonesOf:
  assumes "hexToHSL hex = Some hsl"
  shows "toneVariants hex = Some (tonesOf (toneVariants_hsl hsl))"
  by (cases hsl) (simp add: toneVariants_def assms tonesOf_def toneVariants_hsl_def hslToHex3_def)

section \<open>Totality of the tone derivation\<close>

text \<open>
  C9: for every valid six-digit colour \<open>hexToHSL\<close> and \<open>toneVariants\<close> return a result
  (no division by zero, no \<open>NaN\<close>, no hue left undefined), and for an achromatic colour
  the hue is 0, with saturation 0.
\<close>

theorem tone_derivation_total:
  assumes "valid_hex hex"
  shows "(\<exists>h s l. hexToHSL hex = Some (h, s, l) \<and> (achromatic hex \<longrightarrow> h = 0 \<and> s = 0))
    \<and> (\<exists>t. toneVariants hex = Some t)"
proof
  from hexToHSL_valid [OF assms]
  show "\<exists>h s l. hexToHSL hex = Some (h, s, l) \<and> (achromatic hex \<longrightarrow> h = 0 \<and> s = 0)"
    by blast
  show "\<exists>t. toneVariants hex = Some t"
    using assms by (rule toneVariants_valid)
qed

theorem tone_derivation_total_witness:
  "valid_hex ''#808080'' \<and> achromatic ''#808080'' \<and> hexToHSL ''#808080'' = Some (0, 0, 50)
    \<and> (\<exists>t. toneVariants ''#808080'' = Some t)"
proof -
  have a: "achromatic ''#808080''"
    by (simp add: achromatic_def slice_def)
  from tone_derivation_total [OF valid_hex_examples(2)]
  have "\<exists>t. toneVariants ''#808080'' = Some t" by blast
  with a show ?thesis by (simp add: valid_hex_examples hexToHSL_grey)
qed

section \<open>The order of the lightnesses\<close>

text \<open>
  C1, as stated, fails: white has lightness 100, and the \<open>light\<close> tone is built with
  \<open>min (100 + 22) 92 = 92\<close>, below the base.
\<close>

theorem palette_order_white_counterexample:
  "valid_hex ''#ffffff'' \<and> hexToHSL ''#ffffff'' = Some (0, 0, 100)
    \<and> lightness (light_hsl (toneVariants_hsl (0, 0, 100))) = 92
    \<and> lightness (base_hsl (toneVariants_hsl (0, 0, 100))) = 100"
  by (simp add: valid_hex_examples hexToHSL_white toneVariants_hsl_def lightness_def)

text \<open>
  C1, amended: for every valid six-digit colour, with \<open>l\<close> its rounded lightness, the
  lightness \<open>dark\<close> is built with is at least that of \<open>vdark\<close> and that of \<open>shine\<close> at
  least that of \<open>light\<close>; that of \<open>light\<close> is at least the base's exactly when
  \<open>l \<le> 92\<close>, and the base's at least that of \<open>dark\<close> exactly when \<open>8 \<le> l\<close>. So the
  whole chain holds exactly for \<open>8 \<le> l \<le> 92\<close>.
\<close>

theorem palette_order:
  assumes "valid_hex hex"
  shows "\<exists>hsl. hexToHSL hex = Some hsl
    \<and> toneVariants hex = Some (tonesOf (toneVariants_hsl hsl))
    \<and> lightness (vdark_hsl (toneVariants_hsl hsl)) \<le> lightness (dark_hsl (toneVariants_hsl hsl))
    \<and> lightness (light_hsl (toneVariants_hsl hsl)) \<le> lightness (shine_hsl (toneVariants_hsl hsl))
    \<and> (lightness (base_hsl (toneVariants_hsl hsl)) \<le> lightness (light_hsl (toneVariants_hsl hsl))
          \<longleftrightarrow> lightness hsl \<le> 92)
    \<and> (lightness (dark_hsl (toneVariants_hsl hsl)) \<le> lightness (base_hsl (toneVariants_hsl hsl))
          \<longleftrightarrow> 8 \<le> lightness hsl)"
proof -
  from hexToHSL_valid [OF assms] obtain h s l where hsl: "hexToHSL hex = Some (h, s, l)"
    by blast
  have "lightness (vdark_hsl (toneVariants_hsl (h, s, l))) \<le> lightness (dark_hsl (toneVariants_hsl (h, s, l)))"
    and "lightness (light_hsl (toneVariants_hsl (h, s, l))) \<le> lightness (shine_hsl (toneVariants_hsl (h, s, l)))"
    and "lightness (base_hsl (toneVariants_hsl (h, s, l))) \<le> lightness (light_hsl (toneVariants_hsl (h, s, l)))
          \<longleftrightarrow> lightness (h, s, l) \<le> 92"
    and "lightness (dark_hsl (toneVariants_hsl (h, s, l))) \<le> lightness (base_hsl (toneVariants_hsl (h, s, l)))
          \<longleftrightarrow> 8 \<le> lightness (h, s, l)"
    by (auto simp add: toneVariants_hsl_def lightness_def)
  with hsl toneVariants_tonesOf [OF hsl] show ?thesis by blast
qed

theorem palette_order_witness:
  "valid_hex ''#c0922a'' \<and> hexToHSL ''#c0922a'' = Some (42, 64, 46)
    \<and> toneVariants ''#c0922a'' = Some (tonesOf (toneVariants_hsl (42, 64, 46)))
    \<and> lightness (vdark_hsl (toneVariants_hsl (42, 64, 46))) \<le> lightness (dark_hsl (toneVariants_hsl (42, 64, 46)))
    \<and> lightness (dark_hsl (toneVariants_hsl (42, 64, 46))) \<le> lightness (base_hsl (toneVariants_hsl (42, 64, 46)))
    \<and> lightness (base_hsl (toneVariants_hsl (42, 64, 46))) \<le> lightness (light_hsl (toneVariants_hsl (42, 64, 46)))
    \<and> lightness (light_hsl (toneVariants_hsl (42, 64, 46))) \<le> lightness (shine_hsl (toneVariants_hsl (42, 64, 46)))"
  using palette_order [OF valid_hex_examples(3)]
  by (simp add: valid_hex_examples hexToHSL_gold lightness_def)

section \<open>The five tones\<close>

text \<open>
  C4: for every valid six-digit colour, with \<open>(h, s, l)\<close> the triple \<open>hexToHSL\<close> returns,
  \<open>toneVariants\<close> returns the palette whose \<open>base\<close> is \<open>hslToHex h s l\<close>, the colour after
  the round trip, and whose other tones are \<open>hslToHex\<close> of the same hue with saturation
  and lightness moved by \<open>-5, +22\<close> (\<open>light\<close>), \<open>+5, -22\<close> (\<open>dark\<close>), \<open>+10, -38\<close>
  (\<open>vdark\<close>) and \<open>-15, +38\<close> (\<open>shine\<close>), kept within \<open>0, 92\<close>, \<open>100, 8\<close>,
  \<open>100, 4\<close> and \<open>0, 96\<close>.
\<close>

theorem toneVariants_offsets:
  assumes "valid_hex hex"
  shows "\<exists>h s l. hexToHSL hex = Some (h, s, l) \<and> toneVariants hex = Some \<lparr>
          base = hslToHex h s l,
          light = hslToHex h (max (s - 5) 0) (min (l + 22) 92),
          dark = hslToHex h (min (s + 5) 100) (max (l - 22) 8),
          vdark = hslToHex h (min (s + 10) 100) (max (l - 38) 4),
          shine = hslToHex h (max (s - 15) 0) (min (l + 38) 96) \<rparr>"
proof -
  from hexToHSL_valid [OF assms] obtain h s l where hsl: "hexToHSL hex = Some (h, s, l)"
    by blast
  from hsl toneVariants_Some [OF hsl] show ?thesis by blast
qed

theorem toneVariants_offsets_witness:
  "valid_hex ''#c0922a'' \<and> hexToHSL ''#c0922a'' = Some (42, 64, 46)
    \<and> toneVariants ''#c0922a'' = Some \<lparr>
          base = hslToHex 42 64 46, light = hslToHex 42 59 68, dark = hslToHex 42 69 24,
          vdark = hslToHex 42 74 8, shine = hslToHex 42 49 84 \<rparr>
    \<and> toneVariants ''#c0922a'' = Some \<lparr> base = ''#c0932a'', light = ''#dec17d'',
          dark = ''#674e13'', vdark = ''#231a05'', shine = ''#eadec2'' \<rparr>"
  using toneVariants_offsets [OF valid_hex_examples(3)]
  by (simp add: valid_hex_examples hexToHSL_gold toneVariants_gold)

section \<open>Loops\<close>

lemma forAppend_concat: "forAppend i n body acc = acc @ concat (map body [i..<n])"
proof (induction i n body acc rule: forAppend.induct)
  case (1 i n body acc)
  show ?case
  proof (cases "i < n")
    case True
    then have "[i..<n] = i # [Suc i..<n]" by (simp add: upt_conv_Cons)
    with True 1 show ?thesis by (simp add: forAppend.simps [of i])
  next
    case False
    then show ?thesis by (simp add: forAppend.simps [of i])
  qed
qed

section \<open>The text of a frame is the text of its document\<close>

lemma xmlTexts_simps:
  "xmlTexts [] = []"
  "xmlTexts (k # ks) = xmlText k @ xmlTexts ks"
  "xmlTexts (ks @ ks') = xmlTexts ks @ xmlTexts ks'"
  by (simp_all add: xmlTexts_def)

lemma xmlTexts_loop:
  "xmlTexts (concat (map body xs)) = concat (map (\<lambda>i. xmlTexts (body i)) xs)"
  by (induction xs) (simp_all add: xmlTexts_def)

lemma svgWrap_document: "svgWrap (xmlTexts scene) = xmlText (frameDocument scene)"
  by (simp add: svgWrap_def frameDocument_def attrText_def xmlTexts_def)

lemma frameSimpleRing_document:
  assumes "toneVariants color = Some t"
  shows "frameSimpleRing color = Some (xmlText (frameDocument (sceneSimpleRing t)))"
  unfolding svgWrap_document [symmetric]
  by (simp add: frameSimpleRing_def assms sceneSimpleRing_def xmlTexts_simps attrText_def)

lemma frameDoubleRing_document:
  assumes "toneVariants color = Some t"
  shows "frameDoubleRing color = Some (xmlText (frameDocument (sceneDoubleRing t)))"
  unfolding svgWrap_document [symmetric]
  by (simp add: frameDoubleRing_def assms sceneDoubleRing_def xmlTexts_simps attrText_def)

lemma ropeStrand_nodes: "ropeStrand rt t step = (\<lambda>i. xmlTexts (ropeStrandNodes rt t step i))"
  by (rule ext) (simp add: ropeStrand_def ropeStrandNodes_def Let_def xmlTexts_simps attrText_def)

lemma frameRopeTwist_document:
  assumes "toneVariants color = Some t"
  shows "frameRopeTwist rt color = Some (xmlText (frameDocument (sceneRopeTwist rt t)))"
  unfolding svgWrap_document [symmetric]
  by (simp add: frameRopeTwist_def assms sceneRopeTwist_def xmlTexts_simps attrText_def
      forAppend_concat xmlTexts_loop ropeStrand_nodes Let_def)


lemma petal_nodes: "petal rt t cx cy angle sz = xmlTexts (petalNodes rt t cx cy angle sz)"
  by (simp add: petal_def petalNodes_def Let_def xmlTexts_simps attrText_def)

lemma vine_nodes: "vine rt t = (\<lambda>i. xmlTexts (vineNodes rt t i))"
  by (rule ext) (simp add: vine_def vineNodes_def Let_def xmlTexts_simps attrText_def)

lemma frameOrnateFantasy_document:
  assumes "toneVariants color = Some t"
  shows "frameOrnateFantasy rt color = Some (xmlText (frameDocument (sceneOrnateFantasy rt t)))"
  unfolding svgWrap_document [symmetric]
  by (simp add: frameOrnateFantasy_def assms sceneOrnateFantasy_def xmlTexts_simps attrText_def
      forAppend_concat xmlTexts_loop petal_nodes vine_nodes Let_def)

lemma rivet_nodes: "rivet rt t = (\<lambda>i. xmlTexts (rivetNodes rt t i))"
  by (rule ext) (simp add: rivet_def rivetNodes_def Let_def xmlTexts_simps attrText_def)

lemma band_nodes: "band rt t = (\<lambda>i. xmlTexts (bandNodes rt t i))"
  by (rule ext) (simp add: band_def bandNodes_def Let_def xmlTexts_simps attrText_def)

lemma frameRivetedMetal_document:
  assumes "toneVariants color = Some t"
  shows "frameRivetedMetal rt color = Some (xmlText (frameDocument (sceneRivetedMetal rt t)))"
  unfolding svgWrap_document [symmetric]
  by (simp add: frameRivetedMetal_def assms sceneRivetedMetal_def xmlTexts_simps attrText_def
      forAppend_concat xmlTexts_loop rivet_nodes band_nodes Let_def)

lemma gem_nodes: "gem rt t cx cy angle sz = xmlTexts (gemNodes rt t cx cy angle sz)"
  by (simp add: gem_def gemNodes_def Let_def xmlTexts_simps attrText_def)

lemma bead_nodes: "bead rt t = (\<lambda>i. xmlTexts (beadNodes rt t i))"
  by (rule ext) (simp add: bead_def beadNodes_def Let_def xmlTexts_simps attrText_def)

lemma frameGemBorder_document:
  assumes "toneVariants color = Some t"
  shows "frameGemBorder rt color = Some (xmlText (frameDocument (sceneGemBorder rt t)))"
  unfolding svgWrap_document [symmetric]
  by (simp add: frameGemBorder_def assms sceneGemBorder_def xmlTexts_simps attrText_def
      forAppend_concat xmlTexts_loop gem_nodes bead_nodes Let_def)

lemma FRAMES_set:
  "f \<in> set (FRAMES rt) \<Longrightarrow>
     fn f = frameSimpleRing \<or> fn f = frameDoubleRing \<or> fn f = frameRopeTwist rt
     \<or> fn f = frameOrnateFantasy rt \<or> fn f = frameRivetedMetal rt \<or> fn f = frameGemBorder rt"
  by (auto simp add: FRAMES_def)

lemma frames_documents:
  assumes "toneVariants color = Some t"
  shows "map (\<lambda>f. fn f color) (FRAMES rt)
    = map (\<lambda>scene. Some (xmlText (frameDocument scene))) (frameScenes rt t)"
  by (simp add: FRAMES_def frameScenes_def frameSimpleRing_document [OF assms]
      frameDoubleRing_document [OF assms] frameRopeTwist_document [OF assms]
      frameOrnateFantasy_document [OF assms] frameRivetedMetal_document [OF assms]
      frameGemBorder_document [OF assms])

section \<open>The documents are well formed\<close>

lemma plain_simps:
  "plain []"
  "plain (c # s) = (plainChar c \<and> plain s)"
  "plain (a @ b) = (plain a \<and> plain b)"
  by (simp_all add: plain_def)

lemma plain_replicate: "plainChar c \<Longrightarrow> plain (replicate n c)"
  by (simp add: plain_def list_all_iff)

lemma plain_take: "plain s \<Longrightarrow> plain (take n s)"
  unfolding plain_def list_all_iff by (blast dest: in_set_takeD)

lemma plain_drop: "plain s \<Longrightarrow> plain (drop n s)"
  unfolding plain_def list_all_iff by (blast dest: in_set_dropD)

lemma plain_butlast: "plain s \<Longrightarrow> plain (butlast s)"
  unfolding plain_def list_all_iff by (blast dest: in_set_butlastD)

lemma plain_last: "plain s \<Longrightarrow> s \<noteq> [] \<Longrightarrow> plainChar (last s)"
  unfolding plain_def list_all_iff by simp

lemma plainChar_literals:
  "plainChar CHR ''0''" "plainChar CHR ''1''" "plainChar CHR ''.''" "plainChar CHR ''-''"
  "plainChar CHR ''+''" "plainChar CHR ''e''" "plainChar CHR ''#''"
  by (simp_all add: plainChar_def)

lemma hexDigit_plain: "d < 16 \<Longrightarrow> plainChar (hexDigit d)"
proof -
  assume "d < 16"
  then have "''0123456789abcdef'' ! d \<in> set ''0123456789abcdef''" by (intro nth_mem) simp
  moreover have "set ''0123456789abcdef'' \<subseteq> set ''0123456789abcdef#+-.''" by simp
  ultimately show ?thesis unfolding hexDigit_def plainChar_def by (rule subsetD [rotated])
qed

lemma plain_natToHex: "plain (natToHex n)"
proof (induction n rule: natToHex.induct)
  case (1 n)
  show ?case
  proof (cases "n < 16")
    case True
    then show ?thesis by (simp add: natToHex.simps [of n] plain_simps hexDigit_plain)
  next
    case False
    with 1 show ?thesis
      by (simp add: natToHex.simps [of n] plain_simps hexDigit_plain)
  qed
qed

lemma decDigit_plain: "d < 10 \<Longrightarrow> plainChar (''0123456789'' ! d)"
proof -
  assume "d < 10"
  then have "''0123456789'' ! d \<in> set ''0123456789''" by (intro nth_mem) simp
  moreover have "set ''0123456789'' \<subseteq> set ''0123456789abcdef#+-.''" by simp
  ultimately show ?thesis unfolding plainChar_def by (rule subsetD [rotated])
qed

lemma plain_natToDec: "plain (natToDec n)"
proof (induction n rule: natToDec.induct)
  case (1 n)
  show ?case
  proof (cases "n < 10")
    case True
    then show ?thesis by (simp add: natToDec.simps [of n] plain_simps decDigit_plain)
  next
    case False
    with 1 show ?thesis
      by (simp add: natToDec.simps [of n] plain_simps decDigit_plain)
  qed
qed

lemma natToDec_nonempty: "natToDec n \<noteq> []"
  by (simp add: natToDec.simps [of n])

lemma plain_hslToHex_f: "plain (hslToHex_f h l a n)"
  by (simp add: hslToHex_f_def Let_def padStart2_def toString16_def plain_simps plain_replicate
      plain_natToHex plainChar_literals)

lemma plain_hslToHex: "plain (hslToHex h s l)"
  by (simp add: hslToHex_def Let_def plain_simps plain_hslToHex_f plainChar_literals)

lemma plain_tones:
  assumes "toneVariants color = Some t"
  shows "plain (base t)" "plain (light t)" "plain (dark t)" "plain (vdark t)" "plain (shine t)"
proof -
  from assms obtain h s l where "hexToHSL color = Some (h, s, l)"
    by (cases "hexToHSL color") (auto simp add: toneVariants_def)
  with assms have t: "t = \<lparr> base = hslToHex h s l,
          light = hslToHex h (max (s - 5) 0) (min (l + 22) 92),
          dark = hslToHex h (min (s + 5) 100) (max (l - 22) 8),
          vdark = hslToHex h (min (s + 10) 100) (max (l - 38) 4),
          shine = hslToHex h (max (s - 15) 0) (min (l + 38) 96) \<rparr>"
    by (simp add: toneVariants_def)
  show "plain (base t)" "plain (light t)" "plain (dark t)" "plain (vdark t)" "plain (shine t)"
    unfolding t by (simp_all only: tones.simps plain_hslToHex)
qed

lemma plain_formatDigits: "plain ds \<Longrightarrow> plain (formatDigits ds n)"
  by (simp add: formatDigits_def Let_def plain_simps plain_replicate plain_take plain_drop
      plain_natToDec plainChar_literals)

lemma plain_numberToString: "plain (numberToString x)"
  by (simp add: numberToString_def Let_def plain_simps plain_formatDigits plain_natToDec
      plainChar_literals split: option.splits)

lemma plain_toFixed1: "plain (toFixed1 x)"
  by (simp add: toFixed1_def Let_def plain_simps plain_numberToString plain_natToDec plain_butlast
      plain_last natToDec_nonempty plainChar_literals)

lemma plainChar_safe: "plainChar c \<Longrightarrow> c \<notin> set [CHR 0x22, CHR ''<'', CHR ''>'', CHR ''&'']"
proof -
  have "\<forall>c \<in> set ''0123456789abcdef#+-.''. c \<notin> set [CHR 0x22, CHR ''<'', CHR ''>'', CHR ''&'']"
    by simp
  then show "plainChar c \<Longrightarrow> c \<notin> set [CHR 0x22, CHR ''<'', CHR ''>'', CHR ''&'']"
    unfolding plainChar_def by (rule bspec)
qed

lemma plain_attrSafe: "plain v \<Longrightarrow> attrSafe v"
  unfolding plain_def attrSafe_def list_all_iff using plainChar_safe by blast

lemma attrSafe_simps:
  "attrSafe []"
  "attrSafe (c # s) = (c \<notin> set [CHR 0x22, CHR ''<'', CHR ''>'', CHR ''&''] \<and> attrSafe s)"
  "attrSafe (a @ b) = (attrSafe a \<and> attrSafe b)"
  by (simp_all add: attrSafe_def)

lemma list_all_loop:
  "list_all P (concat (map body xs)) = list_all (\<lambda>i. list_all P (body i)) xs"
  by (induction xs) simp_all

lemma list_all_True: "list_all (\<lambda>i. True) xs"
  by (simp add: list_all_iff)

lemma attrSafe_number: "attrSafe (toFixed1 x)" "attrSafe (numberToString x)"
  by (simp_all add: plain_attrSafe plain_toFixed1 plain_numberToString)

lemma attrSafe_tones:
  assumes "toneVariants color = Some t"
  shows "attrSafe (base t)" "attrSafe (light t)" "attrSafe (dark t)" "attrSafe (vdark t)" "attrSafe (shine t)"
  using plain_tones [OF assms] by (simp_all add: plain_attrSafe)

lemmas wf_eval = isName_def attrsOk_def isBlank_def attrSafe_simps attrSafe_number list_all_loop
  list_all_True

lemma frameDocument_wellFormed: "wellFormed (frameDocument scene) = list_all wellFormed scene"
  by (simp add: frameDocument_def wf_eval)

lemma sceneSimpleRing_wellFormed:
  assumes "toneVariants color = Some t"
  shows "list_all wellFormed (sceneSimpleRing t)"
  by (simp add: sceneSimpleRing_def wf_eval attrSafe_tones [OF assms])

lemma sceneDoubleRing_wellFormed:
  assumes "toneVariants color = Some t"
  shows "list_all wellFormed (sceneDoubleRing t)"
  by (simp add: sceneDoubleRing_def wf_eval attrSafe_tones [OF assms])

lemma sceneRopeTwist_wellFormed:
  assumes "toneVariants color = Some t"
  shows "list_all wellFormed (sceneRopeTwist rt t)"
  by (simp add: sceneRopeTwist_def ropeStrandNodes_def Let_def wf_eval attrSafe_tones [OF assms])

lemma sceneOrnateFantasy_wellFormed:
  assumes "toneVariants color = Some t"
  shows "list_all wellFormed (sceneOrnateFantasy rt t)"
  by (simp add: sceneOrnateFantasy_def petalNodes_def vineNodes_def Let_def wf_eval attrSafe_tones [OF assms])

lemma sceneRivetedMetal_wellFormed:
  assumes "toneVariants color = Some t"
  shows "list_all wellFormed (sceneRivetedMetal rt t)"
  by (simp add: sceneRivetedMetal_def rivetNodes_def bandNodes_def Let_def wf_eval attrSafe_tones [OF assms])

lemma sceneGemBorder_wellFormed:
  assumes "toneVariants color = Some t"
  shows "list_all wellFormed (sceneGemBorder rt t)"
  by (simp add: sceneGemBorder_def gemNodes_def beadNodes_def Let_def wf_eval attrSafe_tones [OF assms])


lemma frameScenes_wellFormed:
  assumes "toneVariants color = Some t"
  shows "list_all (\<lambda>scene. wellFormed (frameDocument scene)) (frameScenes rt t)"
  by (simp add: frameScenes_def frameDocument_wellFormed sceneSimpleRing_wellFormed [OF assms]
      sceneDoubleRing_wellFormed [OF assms] sceneRopeTwist_wellFormed [OF assms]
      sceneOrnateFantasy_wellFormed [OF assms] sceneRivetedMetal_wellFormed [OF assms]
      sceneGemBorder_wellFormed [OF assms])

section \<open>The registry\<close>

lemma FRAMES_length: "length (FRAMES rt) = 6"
  by (simp add: FRAMES_def)

lemma frameScenes_length: "length (frameScenes rt t) = 6"
  by (simp add: frameScenes_def)

lemma render_svgStr_Num:
  assumes "i < 6"
  shows "render_svgStr rt (Num (int i)) color = Inr (fn (FRAMES rt ! i) color)"
  using assms by (simp add: render_svgStr_def arrayIndex_def FRAMES_length)

lemma frames_nth_document:
  assumes "toneVariants color = Some t" "i < 6"
  shows "fn (FRAMES rt ! i) color = Some (xmlText (frameDocument (frameScenes rt t ! i)))"
proof -
  have "fn (FRAMES rt ! i) color = map (\<lambda>f. fn f color) (FRAMES rt) ! i"
    using assms(2) by (simp add: FRAMES_length)
  also have "\<dots> = map (\<lambda>scene. Some (xmlText (frameDocument scene))) (frameScenes rt t) ! i"
    by (simp only: frames_documents [OF assms(1)])
  also have "\<dots> = Some (xmlText (frameDocument (frameScenes rt t ! i)))"
    using assms(2) by (simp add: frameScenes_length)
  finally show ?thesis .
qed

lemma frameDocument_root:
  "\<exists>kids. frameDocument scene = Node ''svg'' [(''xmlns'', ''http://www.w3.org/2000/svg''),
     (''xmlns:xlink'', ''http://www.w3.org/1999/xlink''), (''width'', ''512''), (''height'', ''512''),
     (''viewBox'', ''0 0 512 512'')] kids"
  by (simp add: frameDocument_def)

lemma render_by_identifier:
  assumes "f \<in> set (FRAMES rt)"
  shows "render_svgStr rt (Str (frame_id f)) color = Inl TypeError"
  using assms by (auto simp add: FRAMES_def render_svgStr_def arrayIndex_def isCanonicalIndex_def)

text \<open>
  C6, as stated, fails: the registry holds the six identifiers, and with any of them as
  the selector the selection throws a \<open>TypeError\<close>; no image is produced.
\<close>

theorem render_identifier_counterexample:
  "valid_hex ''#c0922a''
    \<and> map frame_id (FRAMES roundedRuntime) =
      [''simple-ring'', ''double-ring'', ''rope-twist'', ''ornate-fantasy'', ''riveted-metal'', ''gem-border'']
    \<and> render_svgStr roundedRuntime (Str ''simple-ring'') ''#c0922a'' = Inl TypeError
    \<and> render_svgStr roundedRuntime (Str ''double-ring'') ''#c0922a'' = Inl TypeError
    \<and> render_svgStr roundedRuntime (Str ''rope-twist'') ''#c0922a'' = Inl TypeError
    \<and> render_svgStr roundedRuntime (Str ''ornate-fantasy'') ''#c0922a'' = Inl TypeError
    \<and> render_svgStr roundedRuntime (Str ''riveted-metal'') ''#c0922a'' = Inl TypeError
    \<and> render_svgStr roundedRuntime (Str ''gem-border'') ''#c0922a'' = Inl TypeError"
  by (simp add: valid_hex_examples FRAMES_def render_svgStr_def arrayIndex_def isCanonicalIndex_def)

text \<open>
  C6, amended: the registry has exactly six entries, in this order, with these
  identifiers, labels and generator functions. An entry is rendered by its position, 0 to
  5, never by its identifier: with the identifier of an entry as the selector the
  selection throws a \<open>TypeError\<close>. For every valid six-digit colour, the generator of the
  entry at each position returns, also when it is reached by that position, the text of
  an SVG document: a well-formed tree whose root is the element \<open>svg\<close> of the SVG
  namespace with a canvas of 512 by 512, around the scene of that entry.
\<close>

theorem registry_by_position:
  "map frame_id (FRAMES rt) =
      [''simple-ring'', ''double-ring'', ''rope-twist'', ''ornate-fantasy'', ''riveted-metal'', ''gem-border'']
    \<and> map label (FRAMES rt) = [''Simple Ring'', ''Double Ring'', ''Rope Twist'', ''Ornate'', ''Riveted'', ''Gems'']
    \<and> map fn (FRAMES rt) = [frameSimpleRing, frameDoubleRing, frameRopeTwist rt,
          frameOrnateFantasy rt, frameRivetedMetal rt, frameGemBorder rt]
    \<and> (\<forall>f \<in> set (FRAMES rt). render_svgStr rt (Str (frame_id f)) color = Inl TypeError)
    \<and> (valid_hex color \<longrightarrow> (\<exists>t. toneVariants color = Some t
          \<and> (\<forall>i<6. fn (FRAMES rt ! i) color = Some (xmlText (frameDocument (frameScenes rt t ! i)))
                \<and> render_svgStr rt (Num (int i)) color
                    = Inr (Some (xmlText (frameDocument (frameScenes rt t ! i))))
                \<and> wellFormed (frameDocument (frameScenes rt t ! i))
                \<and> (\<exists>kids. frameDocument (frameScenes rt t ! i) =
                      Node ''svg'' [(''xmlns'', ''http://www.w3.org/2000/svg''),
                        (''xmlns:xlink'', ''http://www.w3.org/1999/xlink''), (''width'', ''512''),
                        (''height'', ''512''), (''viewBox'', ''0 0 512 512'')] kids))))"
proof (intro conjI impI ballI)
  show "render_svgStr rt (Str (frame_id f)) color = Inl TypeError" if "f \<in> set (FRAMES rt)" for f
    using that by (rule render_by_identifier)
next
  assume v: "valid_hex color"
  from toneVariants_valid [OF v] obtain t where t: "toneVariants color = Some t" ..
  have "fn (FRAMES rt ! i) color = Some (xmlText (frameDocument (frameScenes rt t ! i)))
      \<and> render_svgStr rt (Num (int i)) color = Inr (Some (xmlText (frameDocument (frameScenes rt t ! i))))
      \<and> wellFormed (frameDocument (frameScenes rt t ! i))
      \<and> (\<exists>kids. frameDocument (frameScenes rt t ! i) =
            Node ''svg'' [(''xmlns'', ''http://www.w3.org/2000/svg''),
              (''xmlns:xlink'', ''http://www.w3.org/1999/xlink''), (''width'', ''512''),
              (''height'', ''512''), (''viewBox'', ''0 0 512 512'')] kids)"
    if i: "i < 6" for i
  proof (intro conjI)
    show d: "fn (FRAMES rt ! i) color = Some (xmlText (frameDocument (frameScenes rt t ! i)))"
      using t i by (rule frames_nth_document)
    show "render_svgStr rt (Num (int i)) color = Inr (Some (xmlText (frameDocument (frameScenes rt t ! i))))"
      by (simp only: render_svgStr_Num [OF i] d)
    from frameScenes_wellFormed [OF t, of rt] i
    show "wellFormed (frameDocument (frameScenes rt t ! i))"
      by (simp add: list_all_length frameScenes_length)
    show "\<exists>kids. frameDocument (frameScenes rt t ! i) =
            Node ''svg'' [(''xmlns'', ''http://www.w3.org/2000/svg''),
              (''xmlns:xlink'', ''http://www.w3.org/1999/xlink''), (''width'', ''512''),
              (''height'', ''512''), (''viewBox'', ''0 0 512 512'')] kids"
      by (rule frameDocument_root)
  qed
  with t show "\<exists>t. toneVariants color = Some t
          \<and> (\<forall>i<6. fn (FRAMES rt ! i) color = Some (xmlText (frameDocument (frameScenes rt t ! i)))
                \<and> render_svgStr rt (Num (int i)) color
                    = Inr (Some (xmlText (frameDocument (frameScenes rt t ! i))))
                \<and> wellFormed (frameDocument (frameScenes rt t ! i))
                \<and> (\<exists>kids. frameDocument (frameScenes rt t ! i) =
                      Node ''svg'' [(''xmlns'', ''http://www.w3.org/2000/svg''),
                        (''xmlns:xlink'', ''http://www.w3.org/1999/xlink''), (''width'', ''512''),
                        (''height'', ''512''), (''viewBox'', ''0 0 512 512'')] kids))"
    by blast
qed (simp_all add: FRAMES_def)

theorem registry_by_position_witness:
  \<open>valid_hex ''#c0922a''
    \<and> list_all (\<lambda>f. render_svgStr roundedRuntime (Str (frame_id f)) ''#c0922a'' = Inl TypeError)
        (FRAMES roundedRuntime)
    \<and> render_svgStr roundedRuntime (Num 5) ''#c0922a''
        = Inr (Some (xmlText (frameDocument (sceneGemBorder roundedRuntime
            \<lparr> base = ''#c0932a'', light = ''#dec17d'', dark = ''#674e13'',
              vdark = ''#231a05'', shine = ''#eadec2'' \<rparr>))))
    \<and> wellFormed (frameDocument (sceneGemBorder roundedRuntime
            \<lparr> base = ''#c0932a'', light = ''#dec17d'', dark = ''#674e13'',
              vdark = ''#231a05'', shine = ''#eadec2'' \<rparr>))
    \<and> render_svgStr roundedRuntime (Num 0) ''#c0922a'' = Inr (Some (
        ''<svg xmlns="http://www.w3.org/2000/svg" xmlns:xlink="http://www.w3.org/1999/xlink" width="512" height="512" viewBox="0 0 512 512">\<newline>'' @
        ''    <defs>\<newline>'' @
        ''      <mask id="fm">\<newline>'' @
        ''        <rect width="512" height="512" fill="white"/>\<newline>'' @
        ''        <circle cx="256" cy="256" r="232" fill="black"/>\<newline>'' @
        ''      </mask>\<newline>'' @
        ''    </defs>\<newline>'' @
        ''    <g mask="url(#fm)">\<newline>'' @
        ''    <circle cx="256" cy="256" r="248" fill="#674e13" />\<newline>'' @
        ''    <circle cx="256" cy="256" r="240" fill="#c0932a" />\<newline>'' @
        ''    <circle cx="256" cy="256" r="234" fill="#674e13" />\<newline>'' @
        ''  </g>\<newline>'' @
        ''  </svg>''))\<close>
proof -
  note r = registry_by_position [of roundedRuntime "''#c0922a''"]
  from r valid_hex_examples(3) obtain t where t: "toneVariants ''#c0922a'' = Some t"
    and all: "\<forall>i<6. fn (FRAMES roundedRuntime ! i) ''#c0922a''
          = Some (xmlText (frameDocument (frameScenes roundedRuntime t ! i)))
        \<and> render_svgStr roundedRuntime (Num (int i)) ''#c0922a''
          = Inr (Some (xmlText (frameDocument (frameScenes roundedRuntime t ! i))))
        \<and> wellFormed (frameDocument (frameScenes roundedRuntime t ! i))
        \<and> (\<exists>kids. frameDocument (frameScenes roundedRuntime t ! i) =
              Node ''svg'' [(''xmlns'', ''http://www.w3.org/2000/svg''),
                (''xmlns:xlink'', ''http://www.w3.org/1999/xlink''), (''width'', ''512''),
                (''height'', ''512''), (''viewBox'', ''0 0 512 512'')] kids)"
    by blast
  from t have t': "t = \<lparr> base = ''#c0932a'', light = ''#dec17d'', dark = ''#674e13'',
      vdark = ''#231a05'', shine = ''#eadec2'' \<rparr>"
    by (simp add: toneVariants_gold)
  have "\<forall>f \<in> set (FRAMES roundedRuntime).
      render_svgStr roundedRuntime (Str (frame_id f)) ''#c0922a'' = Inl TypeError"
    by (rule r [THEN conjunct2, THEN conjunct2, THEN conjunct2, THEN conjunct1])
  then have ids: "list_all (\<lambda>f. render_svgStr roundedRuntime (Str (frame_id f)) ''#c0922a'' = Inl TypeError)
      (FRAMES roundedRuntime)"
    by (simp only: list_all_iff)
  from all [rule_format, of 5]
  have five: "render_svgStr roundedRuntime (Num 5) ''#c0922a''
        = Inr (Some (xmlText (frameDocument (sceneGemBorder roundedRuntime t))))"
      "wellFormed (frameDocument (sceneGemBorder roundedRuntime t))"
    by (simp_all add: frameScenes_def)
  from all [rule_format, of 0]
  have "render_svgStr roundedRuntime (Num 0) ''#c0922a''
        = Inr (Some (xmlText (frameDocument (sceneSimpleRing t))))"
    by (simp add: frameScenes_def)
  then have zero: \<open>render_svgStr roundedRuntime (Num 0) ''#c0922a'' = Inr (Some (
        ''<svg xmlns="http://www.w3.org/2000/svg" xmlns:xlink="http://www.w3.org/1999/xlink" width="512" height="512" viewBox="0 0 512 512">\<newline>'' @
        ''    <defs>\<newline>'' @
        ''      <mask id="fm">\<newline>'' @
        ''        <rect width="512" height="512" fill="white"/>\<newline>'' @
        ''        <circle cx="256" cy="256" r="232" fill="black"/>\<newline>'' @
        ''      </mask>\<newline>'' @
        ''    </defs>\<newline>'' @
        ''    <g mask="url(#fm)">\<newline>'' @
        ''    <circle cx="256" cy="256" r="248" fill="#674e13" />\<newline>'' @
        ''    <circle cx="256" cy="256" r="240" fill="#c0932a" />\<newline>'' @
        ''    <circle cx="256" cy="256" r="234" fill="#674e13" />\<newline>'' @
        ''  </g>\<newline>'' @
        ''  </svg>''))\<close>
    by (simp add: t' frameDocument_def sceneSimpleRing_def attrText_def)
  from valid_hex_examples(3) ids five [unfolded t'] zero show ?thesis
    by (intro conjI)
qed

section \<open>Choosing a frame that is not there\<close>

lemma decValue_foldl_ge:
  "(acc::nat) * 10 ^ length cs \<le> foldl (\<lambda>acc c. 10 * acc + (of_char c - 48)) acc cs"
proof (induction cs arbitrary: acc)
  case Nil
  show ?case by simp
next
  case (Cons c cs)
  have "acc * 10 ^ length (c # cs) = (10 * acc) * 10 ^ length cs" by simp
  also have "\<dots> \<le> (10 * acc + (of_char c - 48)) * 10 ^ length cs"
    by (intro mult_right_mono) simp_all
  also have "\<dots> \<le> foldl (\<lambda>acc c. 10 * acc + (of_char c - 48)) (10 * acc + (of_char c - 48)) cs"
    by (rule Cons.IH)
  finally show ?case by simp
qed

lemma arrayIndex_Str:
  assumes "arrayIndex (Str s) = Some i" "i < 6"
  shows "s \<in> set [''0'', ''1'', ''2'', ''3'', ''4'', ''5'']"
proof -
  from assms(1) have can: "isCanonicalIndex s" and i: "i = decValue s"
    by (auto simp add: arrayIndex_def split: if_splits)
  from can obtain c cs where s: "s = c # cs" by (cases s) (auto simp add: isCanonicalIndex_def)
  from can s have c: "c \<in> set ''0123456789''" by (simp add: isCanonicalIndex_def)
  have cs: "cs = []"
  proof (rule ccontr)
    assume ne: "cs \<noteq> []"
    with can s have "c \<noteq> CHR ''0''" by (auto simp add: isCanonicalIndex_def)
    with c have "1 \<le> (of_char c :: nat) - 48" by auto
    then have "1 * 10 ^ length cs \<le> ((of_char c :: nat) - 48) * 10 ^ length cs"
      by (intro mult_right_mono) simp_all
    also have "\<dots> \<le> decValue s"
      using decValue_foldl_ge [of "of_char c - 48" cs] by (simp add: decValue_def s)
    finally have "10 ^ length cs \<le> i" by (simp add: i)
    moreover from ne have "(10::nat) ^ 1 \<le> 10 ^ length cs"
      by (intro power_increasing) (cases cs, simp_all)
    ultimately show False using assms(2) by simp
  qed
  from c assms(2) show ?thesis by (auto simp add: s cs i decValue_def)
qed

text \<open>
  C2, as stated, fails: with a name that is not in the registry as the selector, the
  selection throws the runtime's \<open>TypeError\<close>; no error of the kind \<open>FrameNotFound\<close>
  exists in the code.
\<close>

theorem unknown_frame_counterexample:
  "render_svgStr roundedRuntime (Str ''no-such-frame'') ''#c0922a'' = Inl TypeError
    \<and> TypeError \<noteq> FrameNotFound"
  by (simp add: render_svgStr_def arrayIndex_def isCanonicalIndex_def)

text \<open>
  C2, amended: a frame is chosen by its position in the registry, never by its identifier.
  For every selector that is not one of the positions 0 to 5 (a number, or the string of
  its decimal digits), and so for every string that is not \<open>0\<close>, ..., \<open>5\<close>, the frame
  identifiers among them, the selection throws a \<open>TypeError\<close> and no image text is
  produced: no frame is put in its place. For no selector is the error of the kind
  \<open>FrameNotFound\<close>. A selector that is a position gives that entry's image.
\<close>

theorem unknown_selector_TypeError:
  "render_svgStr rt key color \<noteq> Inl FrameNotFound
    \<and> ((\<forall>i<6. arrayIndex key \<noteq> Some i) \<longrightarrow> render_svgStr rt key color = Inl TypeError)
    \<and> (\<forall>s. key = Str s \<and> s \<notin> set [''0'', ''1'', ''2'', ''3'', ''4'', ''5'']
          \<longrightarrow> render_svgStr rt key color = Inl TypeError)
    \<and> (\<forall>i<6. arrayIndex key = Some i \<longrightarrow> render_svgStr rt key color = Inr (fn (FRAMES rt ! i) color))"
proof (intro conjI allI impI)
  show "render_svgStr rt key color \<noteq> Inl FrameNotFound"
    by (simp add: render_svgStr_def split: option.splits)
  show "render_svgStr rt key color = Inl TypeError" if "\<forall>i<6. arrayIndex key \<noteq> Some i"
    using that by (auto simp add: render_svgStr_def FRAMES_length split: option.splits)
  show "render_svgStr rt key color = Inl TypeError"
    if "key = Str s \<and> s \<notin> set [''0'', ''1'', ''2'', ''3'', ''4'', ''5'']" for s
  proof -
    from that have "\<forall>i<6. arrayIndex key \<noteq> Some i" using arrayIndex_Str [of s] by blast
    then show ?thesis
      by (auto simp add: render_svgStr_def FRAMES_length split: option.splits)
  qed
  show "render_svgStr rt key color = Inr (fn (FRAMES rt ! i) color)"
    if "i < 6" "arrayIndex key = Some i" for i
    using that by (simp add: render_svgStr_def FRAMES_length)
qed

theorem unknown_selector_TypeError_witness:
  "render_svgStr roundedRuntime (Str ''simple-ring'') ''#c0922a'' = Inl TypeError
    \<and> render_svgStr roundedRuntime (Num 6) ''#c0922a'' = Inl TypeError
    \<and> render_svgStr roundedRuntime (Str ''3'') ''#c0922a'' = Inr (frameOrnateFantasy roundedRuntime ''#c0922a'')"
proof -
  note u = unknown_selector_TypeError [of roundedRuntime _ "''#c0922a''"]
  have 1: "render_svgStr roundedRuntime (Str ''simple-ring'') ''#c0922a'' = Inl TypeError"
    using u [of "Str ''simple-ring''"] by simp
  have "\<forall>i<6. arrayIndex (Num 6) \<noteq> Some i" by (simp add: arrayIndex_def)
  then have 2: "render_svgStr roundedRuntime (Num 6) ''#c0922a'' = Inl TypeError"
    using u [of "Num 6"] by blast
  have "arrayIndex (Str ''3'') = Some 3"
    by (simp add: arrayIndex_def isCanonicalIndex_def decValue_def)
  then have "render_svgStr roundedRuntime (Str ''3'') ''#c0922a'' = Inr (fn (FRAMES roundedRuntime ! 3) ''#c0922a'')"
    using u [of "Str ''3''"] by simp
  then have 3: "render_svgStr roundedRuntime (Str ''3'') ''#c0922a'' = Inr (frameOrnateFantasy roundedRuntime ''#c0922a'')"
    by (simp add: FRAMES_def)
  from 1 2 3 show ?thesis by simp
qed

section \<open>Letter case\<close>

lemma hexval_lowerChar:
  assumes "hexval c = Some v"
  shows "hexval (lowerChar c) = Some v"
  using assms by (auto simp add: hexval_def lowerChar_def Let_def split: if_splits)

lemma lowerChar_hexval_eq:
  assumes "lowerChar c = lowerChar e" "hexval c = Some v" "hexval e = Some w"
  shows "v = w"
  using hexval_lowerChar [OF assms(2)] hexval_lowerChar [OF assms(3)] assms(1) by simp

lemma hexToHSL_parse_cong:
  assumes "parseInt16 (slice 1 3 a) = parseInt16 (slice 1 3 b)"
    "parseInt16 (slice 3 5 a) = parseInt16 (slice 3 5 b)"
    "parseInt16 (slice 5 7 a) = parseInt16 (slice 5 7 b)"
  shows "hexToHSL a = hexToHSL b"
  by (simp only: hexToHSL_def assms)

lemma hexToHSL_case:
  assumes a: "valid_hex a" and b: "valid_hex b" and ab: "sameUpToCase a b"
  shows "hexToHSL a = hexToHSL b"
proof -
  from a obtain c1 c2 c3 c4 c5 c6 v1 v2 v3 v4 v5 v6 where
    ha: "a = [CHR ''#'', c1, c2, c3, c4, c5, c6]" and
    va: "hexval c1 = Some v1" "hexval c2 = Some v2" "hexval c3 = Some v3"
       "hexval c4 = Some v4" "hexval c5 = Some v5" "hexval c6 = Some v6"
    by (rule valid_hex_digits)
  from b obtain e1 e2 e3 e4 e5 e6 w1 w2 w3 w4 w5 w6 where
    hb: "b = [CHR ''#'', e1, e2, e3, e4, e5, e6]" and
    wb: "hexval e1 = Some w1" "hexval e2 = Some w2" "hexval e3 = Some w3"
       "hexval e4 = Some w4" "hexval e5 = Some w5" "hexval e6 = Some w6"
    by (rule valid_hex_digits)
  from ab have l: "lowerChar c1 = lowerChar e1" "lowerChar c2 = lowerChar e2"
    "lowerChar c3 = lowerChar e3" "lowerChar c4 = lowerChar e4"
    "lowerChar c5 = lowerChar e5" "lowerChar c6 = lowerChar e6"
    by (simp_all add: sameUpToCase_def ha hb)
  have vw: "v1 = w1" "v2 = w2" "v3 = w3" "v4 = w4" "v5 = w5" "v6 = w6"
    using l va wb by (blast intro: lowerChar_hexval_eq)+
  have sa: "slice 1 3 a = [c1, c2]" "slice 3 5 a = [c3, c4]" "slice 5 7 a = [c5, c6]"
    by (simp_all add: ha slice_def)
  have sb: "slice 1 3 b = [e1, e2]" "slice 3 5 b = [e3, e4]" "slice 5 7 b = [e5, e6]"
    by (simp_all add: hb slice_def)
  show ?thesis
  proof (rule hexToHSL_parse_cong)
    show "parseInt16 (slice 1 3 a) = parseInt16 (slice 1 3 b)"
      unfolding sa sb by (simp only: parseInt16_two [OF va(1,2)] parseInt16_two [OF wb(1,2)] vw)
    show "parseInt16 (slice 3 5 a) = parseInt16 (slice 3 5 b)"
      unfolding sa sb by (simp only: parseInt16_two [OF va(3,4)] parseInt16_two [OF wb(3,4)] vw)
    show "parseInt16 (slice 5 7 a) = parseInt16 (slice 5 7 b)"
      unfolding sa sb by (simp only: parseInt16_two [OF va(5,6)] parseInt16_two [OF wb(5,6)] vw)
  qed
qed

lemma frames_tone_cong:
  assumes "toneVariants a = toneVariants b"
  shows "frameSimpleRing a = frameSimpleRing b" "frameDoubleRing a = frameDoubleRing b"
    "frameRopeTwist rt a = frameRopeTwist rt b" "frameOrnateFantasy rt a = frameOrnateFantasy rt b"
    "frameRivetedMetal rt a = frameRivetedMetal rt b" "frameGemBorder rt a = frameGemBorder rt b"
  by (simp_all only: frameSimpleRing_def frameDoubleRing_def frameRopeTwist_def
      frameOrnateFantasy_def frameRivetedMetal_def frameGemBorder_def assms)

text \<open>
  C10: two valid six-digit colours that differ only in the case of their letters have the
  same palette, and each of the six generators returns the same text for both.
\<close>

theorem case_insensitive:
  assumes "valid_hex a" "valid_hex b" "sameUpToCase a b"
  shows "toneVariants a = toneVariants b \<and> (\<forall>f \<in> set (FRAMES rt). fn f a = fn f b)"
proof
  have "hexToHSL a = hexToHSL b" using assms by (rule hexToHSL_case)
  then show t: "toneVariants a = toneVariants b" by (simp only: toneVariants_def)
  show "\<forall>f \<in> set (FRAMES rt). fn f a = fn f b"
  proof
    fix f
    assume "f \<in> set (FRAMES rt)"
    from FRAMES_set [OF this] frames_tone_cong(1,2) [OF t] frames_tone_cong(3-6) [OF t, of rt]
    show "fn f a = fn f b" by auto
  qed
qed

theorem case_insensitive_witness:
  "valid_hex ''#C0922A'' \<and> valid_hex ''#c0922a'' \<and> sameUpToCase ''#C0922A'' ''#c0922a''
    \<and> toneVariants ''#C0922A'' = toneVariants ''#c0922a''
    \<and> list_all (\<lambda>f. fn f ''#C0922A'' = fn f ''#c0922a'') (FRAMES roundedRuntime)"
proof -
  have s: "sameUpToCase ''#C0922A'' ''#c0922a''"
    by (simp add: sameUpToCase_def lowerChar_def char_of_eq_iff)
  from case_insensitive [OF valid_hex_examples(4) valid_hex_examples(3) s, of roundedRuntime]
  show ?thesis by (simp add: valid_hex_examples s list_all_iff)
qed


section \<open>The double ring\<close>

lemma frameDoubleRing_scene:
  assumes "toneVariants color = Some t"
  shows "frameDoubleRing color = Some (svgWrap (sceneText (doubleRingScene t)))"
  by (simp add: frameDoubleRing_def assms sceneText_def doubleRingScene_def natToDec.simps)

lemma doubleRing_discs:
  "discs (doubleRingScene t) = [(252, vdark t), (248, base t), (243, vdark t), (240, dark t),
     (238, vdark t), (235, light t), (232, vdark t)]"
  by (simp add: doubleRingScene_def)

text \<open>
  C7, as stated, fails: the fourth disc, of radius 240, is filled with the tone \<open>dark\<close>,
  which for the accent \<open>#c0922a\<close> is none of \<open>vdark\<close>, \<open>base\<close> and \<open>light\<close>.
\<close>

theorem double_ring_gap_counterexample:
  "toneVariants ''#c0922a'' = Some \<lparr> base = ''#c0932a'', light = ''#dec17d'', dark = ''#674e13'',
      vdark = ''#231a05'', shine = ''#eadec2'' \<rparr>
    \<and> frameDoubleRing ''#c0922a'' = Some (svgWrap (sceneText (doubleRingScene
        \<lparr> base = ''#c0932a'', light = ''#dec17d'', dark = ''#674e13'',
          vdark = ''#231a05'', shine = ''#eadec2'' \<rparr>)))
    \<and> discs (doubleRingScene \<lparr> base = ''#c0932a'', light = ''#dec17d'', dark = ''#674e13'',
          vdark = ''#231a05'', shine = ''#eadec2'' \<rparr>) ! 3 = (240, ''#674e13'')
    \<and> ''#674e13'' \<notin> {''#231a05'', ''#c0932a'', ''#dec17d''}"
  by (simp add: toneVariants_gold frameDoubleRing_scene [OF toneVariants_gold] doubleRing_discs)

text \<open>
  C7, amended: for every valid six-digit colour the scene of the Double Ring is seven
  discs around the centre of the canvas and three comments, the radii falling strictly
  from 252 to 232: an outer ring of \<open>vdark\<close>, \<open>base\<close>, \<open>vdark\<close> (252, 248, 243), the
  gap filled with \<open>dark\<close> (240), and an inner ring of \<open>vdark\<close>, \<open>light\<close>, \<open>vdark\<close>
  (238, 235, 232).
\<close>

theorem double_ring_scene:
  assumes "valid_hex color"
  shows "\<exists>t. toneVariants color = Some t
    \<and> frameDoubleRing color = Some (svgWrap (sceneText (doubleRingScene t)))
    \<and> discs (doubleRingScene t) = [(252, vdark t), (248, base t), (243, vdark t), (240, dark t),
          (238, vdark t), (235, light t), (232, vdark t)]
    \<and> length (discs (doubleRingScene t)) = 7
    \<and> sorted_wrt (>) (map fst (discs (doubleRingScene t)))"
proof -
  from toneVariants_valid [OF assms] obtain t where t: "toneVariants color = Some t" ..
  have "sorted_wrt (>) (map fst (discs (doubleRingScene t)))"
    and "length (discs (doubleRingScene t)) = 7"
    by (simp_all add: doubleRing_discs)
  with t frameDoubleRing_scene [OF t] doubleRing_discs [of t] show ?thesis by blast
qed

theorem double_ring_scene_witness:
  "valid_hex ''#c0922a''
    \<and> (\<exists>t. toneVariants ''#c0922a'' = Some t
      \<and> frameDoubleRing ''#c0922a'' = Some (svgWrap (sceneText (doubleRingScene t)))
      \<and> discs (doubleRingScene t) = [(252, vdark t), (248, base t), (243, vdark t), (240, dark t),
            (238, vdark t), (235, light t), (232, vdark t)]
      \<and> length (discs (doubleRingScene t)) = 7
      \<and> sorted_wrt (>) (map fst (discs (doubleRingScene t))))"
  using double_ring_scene [OF valid_hex_examples(3)] valid_hex_examples(3) by blast

section \<open>The rope\<close>

lemma ropeStrand_polar:
  \<open>ropeStrand rt t ropeStep i =
     ''<path d="M'' @ polar rt 242 (ropeStart i) @ '' Q'' @ polar rt 234 (ropeControl i) @ '' '' @
     polar rt 242 (ropeEnd i) @ ''" stroke="'' @ (if even i then base t else dark t) @
     ''" stroke-width="9" fill="none" stroke-linecap="round"/>''\<close>
  by (simp add: ropeStrand_def Let_def polar_def ropeStart_def ropeEnd_def ropeControl_def)

lemma frameRopeTwist_scene:
  assumes "toneVariants color = Some t"
  shows "frameRopeTwist rt color = Some (svgWrap (sceneText [
      Blank ''\<newline>    '', Disc 252 (vdark t), Blank ''\<newline>    '', Disc 248 (dark t),
      Blank ''\<newline>    '', Raw (concat (map (ropeStrand rt t ropeStep) [0..<36])),
      Blank ''\<newline>    '', Disc 233 (vdark t), Blank ''\<newline>  '']))"
  by (simp add: frameRopeTwist_def assms forAppend_concat sceneText_def natToDec.simps ropeStep_def
      Let_def del: upt.simps)

lemma ropeStep_value: "ropeStep = 6288211335136391 / 36028797018963968"
  by (simp add: ropeStep_def Math_PI_def fl_eval)

lemma half_pi_exact: "fl (Math_PI / 2) = Math_PI / 2"
  by (simp add: Math_PI_def fl_eval)

lemma ropeStart_values:
  "map ropeStart [0..<36] = [
      - (884279719003555 / 562949953421312), - (6288211335136391 / 4503599627370496),
      - (2751092459122171 / 2251799813685248), - (2358079250676147 / 2251799813685248),
      - (7860264168920489 / 9007199254740992), - (6288211335136391 / 9007199254740992),
      - (2358079250676147 / 4503599627370496), - (786026416892049 / 2251799813685248),
      - (786026416892049 / 4503599627370496), 0,
      786026416892049 / 4503599627370496, 786026416892049 / 2251799813685248,
      1179039625338073 / 2251799813685248, 786026416892049 / 1125899906842624,
      982533021115061 / 1125899906842624, 2358079250676147 / 2251799813685248,
      2751092459122171 / 2251799813685248, 3144105667568195 / 2251799813685248,
      884279719003555 / 562949953421312, 982533021115061 / 562949953421312,
      4323145292906269 / 2251799813685248, 4716158501352293 / 2251799813685248,
      2554585854899159 / 1125899906842624, 2751092459122171 / 1125899906842624,
      2947599063345183 / 1125899906842624, 3144105667568195 / 1125899906842624,
      417576533973901 / 140737488355328, 884279719003555 / 281474976710656,
      233351592514827 / 70368744177664, 982533021115061 / 281474976710656,
      4126638688683257 / 1125899906842624, 4323145292906269 / 1125899906842624,
      4519651897129281 / 1125899906842624, 4716158501352293 / 1125899906842624,
      4912665105575305 / 1125899906842624, 2554585854899159 / 562949953421312]"
  unfolding ropeStart_def half_pi_exact ropeStep_value
  by (simp add: Math_PI_def fl_eval upt_rec)

lemma ropeStart_increasing: "sorted_wrt (<) (map ropeStart [0..<36])"
  unfolding ropeStart_values by simp

text \<open>
  C8: for every valid six-digit colour, the Rope Twist draws, between its discs of radius
  252 and 248 and its disc of radius 233, exactly 36 strokes, strand \<open>i\<close> for
  \<open>i = 0, ..., 35\<close> in this order. In double arithmetic, strand \<open>i\<close> starts on the circle
  of radius 242 at the angle \<open>i * step - \<pi> / 2\<close> with \<open>step = 2 * \<pi> / 36\<close>, ends on it
  \<open>0.55 * step\<close> further, and is a quadratic curve whose control point lies on the
  circle of radius 234 at the angle \<open>0.275 * step\<close> after the start, exactly half of
  the way to the end, moved by \<open>+0.08\<close> for even \<open>i\<close> and \<open>-0.08\<close> for odd \<open>i\<close>; its colour is
  \<open>base\<close> for even \<open>i\<close> and \<open>dark\<close> for odd \<open>i\<close>. The first strand starts at
  \<open>- \<pi> / 2\<close>, the top of the canvas, and the start angles grow strictly with \<open>i\<close>.
\<close>

theorem rope_twist_strands:
  assumes "valid_hex color"
  shows \<open>\<exists>t. toneVariants color = Some t
    \<and> frameRopeTwist rt color = Some (svgWrap (sceneText [
      Blank ''\<newline>    '', Disc 252 (vdark t), Blank ''\<newline>    '', Disc 248 (dark t),
      Blank ''\<newline>    '', Raw (concat (map (ropeStrand rt t ropeStep) [0..<36])),
      Blank ''\<newline>    '', Disc 233 (vdark t), Blank ''\<newline>  '']))
    \<and> length (map (ropeStrand rt t ropeStep) [0..<36]) = 36
    \<and> (\<forall>i. ropeStrand rt t ropeStep i =
          ''<path d="M'' @ polar rt 242 (ropeStart i) @ '' Q'' @ polar rt 234 (ropeControl i) @ '' '' @
          polar rt 242 (ropeEnd i) @ ''" stroke="'' @ (if even i then base t else dark t) @
          ''" stroke-width="9" fill="none" stroke-linecap="round"/>'')
    \<and> ropeStep = fl (fl (2 * Math_PI) / 36)
    \<and> (\<forall>i. ropeStart i = fl (fl (of_nat i * ropeStep) - fl (Math_PI / 2)))
    \<and> (\<forall>i. ropeEnd i = fl (ropeStart i + fl (ropeStep * fl 0.55)))
    \<and> (\<forall>i. ropeControl i
          = fl (fl (ropeStart i + fl (ropeStep * fl 0.275)) + (if even i then fl 0.08 else - fl 0.08)))
    \<and> fl (ropeStep * fl 0.275) * 2 = fl (ropeStep * fl 0.55)
    \<and> ropeStart 0 = - (Math_PI / 2)
    \<and> sorted_wrt (<) (map ropeStart [0..<36])\<close>
proof -
  from toneVariants_valid [OF assms] obtain t where t: "toneVariants color = Some t" ..
  have "frameRopeTwist rt color = Some (svgWrap (sceneText [
      Blank ''\<newline>    '', Disc 252 (vdark t), Blank ''\<newline>    '', Disc 248 (dark t),
      Blank ''\<newline>    '', Raw (concat (map (ropeStrand rt t ropeStep) [0..<36])),
      Blank ''\<newline>    '', Disc 233 (vdark t), Blank ''\<newline>  '']))"
    by (rule frameRopeTwist_scene [OF t])
  moreover have "length (map (ropeStrand rt t ropeStep) [0..<36]) = 36" by simp
  moreover note ropeStrand_polar [of rt t] ropeStep_def ropeStart_def ropeEnd_def ropeControl_def
  moreover have "fl (ropeStep * fl 0.275) * 2 = fl (ropeStep * fl 0.55)"
    unfolding ropeStep_value by (simp add: fl_eval)
  moreover have "ropeStart 0 = - (Math_PI / 2)"
    using ropeStart_values by (simp add: Math_PI_def upt_rec)
  moreover note ropeStart_increasing
  ultimately show ?thesis using t by (intro exI [of _ t] conjI allI)
qed

theorem rope_twist_strands_witness:
  \<open>valid_hex ''#c0922a''
    \<and> toneVariants ''#c0922a'' = Some \<lparr> base = ''#c0932a'', light = ''#dec17d'', dark = ''#674e13'',
      vdark = ''#231a05'', shine = ''#eadec2'' \<rparr>
    \<and> ropeStrand roundedRuntime \<lparr> base = ''#c0932a'', light = ''#dec17d'', dark = ''#674e13'',
      vdark = ''#231a05'', shine = ''#eadec2'' \<rparr> ropeStep 1 =
          ''<path d="M'' @ polar roundedRuntime 242 (ropeStart 1) @ '' Q'' @
          polar roundedRuntime 234 (ropeControl 1) @ '' '' @
          polar roundedRuntime 242 (ropeEnd 1) @
          ''" stroke="#674e13" stroke-width="9" fill="none" stroke-linecap="round"/>''
    \<and> ropeStart 0 = - (Math_PI / 2)\<close>
proof -
  from rope_twist_strands [OF valid_hex_examples(3), of roundedRuntime]
  obtain t where t: "toneVariants ''#c0922a'' = Some t"
    and strand: \<open>\<forall>i. ropeStrand roundedRuntime t ropeStep i =
          ''<path d="M'' @ polar roundedRuntime 242 (ropeStart i) @ '' Q'' @
          polar roundedRuntime 234 (ropeControl i) @ '' '' @
          polar roundedRuntime 242 (ropeEnd i) @ ''" stroke="'' @ (if even i then base t else dark t) @
          ''" stroke-width="9" fill="none" stroke-linecap="round"/>''\<close>
    and top: "ropeStart 0 = - (Math_PI / 2)"
    by blast
  from t have t': "t = \<lparr> base = ''#c0932a'', light = ''#dec17d'', dark = ''#674e13'',
      vdark = ''#231a05'', shine = ''#eadec2'' \<rparr>"
    by (simp add: toneVariants_gold)
  from strand [rule_format, of 1] top show ?thesis
    by (simp add: t' toneVariants_gold valid_hex_examples)
qed

section \<open>The mask\<close>

lemma frameDocument_mask:
  "map_of (masks (frameDocument scene)) ''fm'' = Some [
     Chars ''\<newline>        '',
     Leaf ''rect'' [(''width'', ''512''), (''height'', ''512''), (''fill'', ''white'')] False,
     Chars ''\<newline>        '',
     Leaf ''circle'' [(''cx'', ''256''), (''cy'', ''256''), (''r'', ''232''), (''fill'', ''black'')] False,
     Chars ''\<newline>      '']"
  by (simp add: frameDocument_def)

lemma frameDocument_shapes:
  "maskShapes [
     Chars ''\<newline>        '',
     Leaf ''rect'' [(''width'', ''512''), (''height'', ''512''), (''fill'', ''white'')] False,
     Chars ''\<newline>        '',
     Leaf ''circle'' [(''cx'', ''256''), (''cy'', ''256''), (''r'', ''232''), (''fill'', ''black'')] False,
     Chars ''\<newline>      ''] = Some frameMask"
  by (simp add: natAttr_def paintAttr_def isDigits_def decValue_def frameMask_def)

lemma frameDocument_opacity:
  "documentOpacity draw (frameDocument scene) pt = Some (draw scene pt * maskLuminance frameMask pt)"
  by (simp add: documentOpacity_def frameDocument_def urlRef_def natAttr_def paintAttr_def
      isDigits_def decValue_def frameMask_def over_def)

lemma frameMask_inside:
  assumes "(x - 256)\<^sup>2 + (y - 256)\<^sup>2 < 232\<^sup>2"
  shows "maskLuminance frameMask (x, y) = 0"
  using assms by (simp add: maskLuminance_def frameMask_def)

lemma frameMask_outside:
  assumes "232\<^sup>2 < (x - 256)\<^sup>2 + (y - 256)\<^sup>2" "0 \<le> x" "x \<le> 512" "0 \<le> y" "y \<le> 512"
  shows "maskLuminance frameMask (x, y) = 1"
  using assms by (simp add: maskLuminance_def frameMask_def)

text \<open>
  C5: for every valid six-digit colour, the text each of the six frames returns is the
  text of a well-formed document in which the whole scene of the frame, and nothing
  else that draws, is the content of one group, drawn through the mask \<open>fm\<close>; that mask
  is a white rectangle over the whole canvas and then a black disc of radius 232 around
  (256, 256). So, whatever the elements of the scene paint, the opacity of the document
  at a point is the opacity of the scene there times the luminance of the mask: 0 at
  every point strictly within 232 of the centre, the centre itself among them, and the
  scene's own opacity at every point of the canvas further than 232 from the centre. The
  hole is made by the mask, not by the paint of any shape.
\<close>

theorem frames_masked:
  assumes "valid_hex color"
  shows "\<exists>t. toneVariants color = Some t
    \<and> map (\<lambda>f. fn f color) (FRAMES rt)
        = map (\<lambda>scene. Some (xmlText (frameDocument scene))) (frameScenes rt t)
    \<and> length (FRAMES rt) = 6
    \<and> (\<forall>scene \<in> set (frameScenes rt t).
          wellFormed (frameDocument scene)
          \<and> (\<exists>mk. map_of (masks (frameDocument scene)) ''fm'' = Some mk
                \<and> maskShapes mk = Some [Rect 512 512 White, Circle 256 256 232 Black])
          \<and> (\<forall>draw pt. documentOpacity draw (frameDocument scene) pt
                = Some (draw scene pt * maskLuminance [Rect 512 512 White, Circle 256 256 232 Black] pt))
          \<and> (\<forall>draw x y. (x - 256)\<^sup>2 + (y - 256)\<^sup>2 < 232\<^sup>2
                \<longrightarrow> documentOpacity draw (frameDocument scene) (x, y) = Some 0)
          \<and> (\<forall>draw x y. 232\<^sup>2 < (x - 256)\<^sup>2 + (y - 256)\<^sup>2 \<and> 0 \<le> x \<and> x \<le> 512 \<and> 0 \<le> y \<and> y \<le> 512
                \<longrightarrow> documentOpacity draw (frameDocument scene) (x, y) = Some (draw scene (x, y))))"
proof -
  from toneVariants_valid [OF assms] obtain t where t: "toneVariants color = Some t" ..
  have "wellFormed (frameDocument scene)
      \<and> (\<exists>mk. map_of (masks (frameDocument scene)) ''fm'' = Some mk
            \<and> maskShapes mk = Some [Rect 512 512 White, Circle 256 256 232 Black])
      \<and> (\<forall>draw pt. documentOpacity draw (frameDocument scene) pt
            = Some (draw scene pt * maskLuminance [Rect 512 512 White, Circle 256 256 232 Black] pt))
      \<and> (\<forall>draw x y. (x - 256)\<^sup>2 + (y - 256)\<^sup>2 < 232\<^sup>2
            \<longrightarrow> documentOpacity draw (frameDocument scene) (x, y) = Some 0)
      \<and> (\<forall>draw x y. 232\<^sup>2 < (x - 256)\<^sup>2 + (y - 256)\<^sup>2 \<and> 0 \<le> x \<and> x \<le> 512 \<and> 0 \<le> y \<and> y \<le> 512
            \<longrightarrow> documentOpacity draw (frameDocument scene) (x, y) = Some (draw scene (x, y)))"
    if "scene \<in> set (frameScenes rt t)" for scene
  proof (intro conjI allI impI)
    from frameScenes_wellFormed [OF t, of rt] that show "wellFormed (frameDocument scene)"
      by (simp only: list_all_iff)
    show "\<exists>mk. map_of (masks (frameDocument scene)) ''fm'' = Some mk
        \<and> maskShapes mk = Some [Rect 512 512 White, Circle 256 256 232 Black]"
      using frameDocument_mask [of scene] frameDocument_shapes by (simp only: frameMask_def) blast
    show "documentOpacity draw (frameDocument scene) pt
        = Some (draw scene pt * maskLuminance [Rect 512 512 White, Circle 256 256 232 Black] pt)"
      for draw pt
      by (simp only: frameDocument_opacity frameMask_def)
    show "documentOpacity draw (frameDocument scene) (x, y) = Some 0"
      if "(x - 256)\<^sup>2 + (y - 256)\<^sup>2 < 232\<^sup>2" for draw x y
      by (simp add: frameDocument_opacity frameMask_inside [OF that])
    show "documentOpacity draw (frameDocument scene) (x, y) = Some (draw scene (x, y))"
      if "232\<^sup>2 < (x - 256)\<^sup>2 + (y - 256)\<^sup>2 \<and> 0 \<le> x \<and> x \<le> 512 \<and> 0 \<le> y \<and> y \<le> 512" for draw x y
      using that by (simp add: frameDocument_opacity frameMask_outside)
  qed
  with t frames_documents [OF t, of rt] FRAMES_length [of rt] show ?thesis by blast
qed

theorem frames_masked_witness:
  "valid_hex ''#c0922a''
    \<and> map (\<lambda>f. fn f ''#c0922a'') (FRAMES roundedRuntime)
        = map (\<lambda>scene. Some (xmlText (frameDocument scene)))
            (frameScenes roundedRuntime \<lparr> base = ''#c0932a'', light = ''#dec17d'', dark = ''#674e13'',
              vdark = ''#231a05'', shine = ''#eadec2'' \<rparr>)
    \<and> list_all (\<lambda>scene. wellFormed (frameDocument scene)
          \<and> documentOpacity (\<lambda>kids pt. 1) (frameDocument scene) (256, 256) = Some 0
          \<and> documentOpacity (\<lambda>kids pt. 1) (frameDocument scene) (256, 25) = Some 0
          \<and> documentOpacity (\<lambda>kids pt. 1) (frameDocument scene) (256, 10) = Some 1)
        (frameScenes roundedRuntime \<lparr> base = ''#c0932a'', light = ''#dec17d'', dark = ''#674e13'',
              vdark = ''#231a05'', shine = ''#eadec2'' \<rparr>)"
proof -
  from frames_masked [OF valid_hex_examples(3), of roundedRuntime]
  obtain t where t: "toneVariants ''#c0922a'' = Some t"
    and docs: "map (\<lambda>f. fn f ''#c0922a'') (FRAMES roundedRuntime)
        = map (\<lambda>scene. Some (xmlText (frameDocument scene))) (frameScenes roundedRuntime t)"
    and scenes: "\<forall>scene \<in> set (frameScenes roundedRuntime t).
          wellFormed (frameDocument scene)
          \<and> (\<forall>draw x y. (x - 256)\<^sup>2 + (y - 256)\<^sup>2 < 232\<^sup>2
                \<longrightarrow> documentOpacity draw (frameDocument scene) (x, y) = Some 0)
          \<and> (\<forall>draw x y. 232\<^sup>2 < (x - 256)\<^sup>2 + (y - 256)\<^sup>2 \<and> 0 \<le> x \<and> x \<le> 512 \<and> 0 \<le> y \<and> y \<le> 512
                \<longrightarrow> documentOpacity draw (frameDocument scene) (x, y) = Some (draw scene (x, y)))"
    by blast
  from t have t': "t = \<lparr> base = ''#c0932a'', light = ''#dec17d'', dark = ''#674e13'',
      vdark = ''#231a05'', shine = ''#eadec2'' \<rparr>"
    by (simp add: toneVariants_gold)
  have "wellFormed (frameDocument scene)
      \<and> documentOpacity (\<lambda>kids pt. 1) (frameDocument scene) (256, 256) = Some 0
      \<and> documentOpacity (\<lambda>kids pt. 1) (frameDocument scene) (256, 25) = Some 0
      \<and> documentOpacity (\<lambda>kids pt. 1) (frameDocument scene) (256, 10) = Some 1"
    if s: "scene \<in> set (frameScenes roundedRuntime t)" for scene
  proof -
    from scenes s have w: "wellFormed (frameDocument scene)"
      and inside: "\<And>draw x y. (x - 256)\<^sup>2 + (y - 256)\<^sup>2 < 232\<^sup>2
            \<Longrightarrow> documentOpacity draw (frameDocument scene) (x, y) = Some 0"
      and outside: "\<And>draw x y. 232\<^sup>2 < (x - 256)\<^sup>2 + (y - 256)\<^sup>2 \<and> 0 \<le> x \<and> x \<le> 512 \<and> 0 \<le> y \<and> y \<le> 512
            \<Longrightarrow> documentOpacity draw (frameDocument scene) (x, y) = Some (draw scene (x, y))"
      by blast+
    have "documentOpacity (\<lambda>kids pt. 1) (frameDocument scene) (256, 256) = Some 0"
      by (rule inside) simp
    moreover have "documentOpacity (\<lambda>kids pt. 1) (frameDocument scene) (256, 25) = Some 0"
      by (rule inside) simp
    moreover have "documentOpacity (\<lambda>kids pt. 1) (frameDocument scene) (256, 10) = Some 1"
      by (subst outside) simp_all
    ultimately show ?thesis using w by blast
  qed
  then have "list_all (\<lambda>scene. wellFormed (frameDocument scene)
          \<and> documentOpacity (\<lambda>kids pt. 1) (frameDocument scene) (256, 256) = Some 0
          \<and> documentOpacity (\<lambda>kids pt. 1) (frameDocument scene) (256, 25) = Some 0
          \<and> documentOpacity (\<lambda>kids pt. 1) (frameDocument scene) (256, 10) = Some 1)
        (frameScenes roundedRuntime t)"
    by (simp only: list_all_iff) blast
  with valid_hex_examples(3) docs show ?thesis
    unfolding t' by (intro conjI)
qed

end
